theory Spec2Isabelle
  imports
    Complex_Main
    "HOL-Library.Char_ord"
    "HOL-Library.List_Lexorder"
    "HOL-Library.Product_Lexorder"
begin

section \<open>Values of the request layer\<close>

text \<open>
  JavaScript numbers. The three special values are kept apart; a finite number is carried
  as the rational it denotes, so arithmetic on finite numbers is exact (the rounding of
  IEEE doubles is outside this model, and \<open>0.001\<close> is the rational \<open>1/1000\<close>).
\<close>

datatype jsnum = NaN | PosInf | NegInf | Fin rat

text \<open>
  A field of a parsed JSON body. \<open>JUndefined\<close> is an absent field. \<open>JObj s\<close> is an array
  or an object, carried with its \<open>ToString\<close> image \<open>s\<close>, the only thing \<open>parseFloat\<close>
  reads of it.
\<close>

datatype jsval = JUndefined | JNull | JBool bool | JNum jsnum | JStr string | JObj string

text \<open>\<open>ToBoolean\<close>: what \<open>!x\<close>, \<open>x && y\<close> and \<open>x || y\<close> test.\<close>

fun truthy :: "jsval \<Rightarrow> bool" where
  "truthy JUndefined = False"
| "truthy JNull = False"
| "truthy (JBool b) = b"
| "truthy (JNum n) = (n \<noteq> NaN \<and> n \<noteq> Fin 0)"
| "truthy (JStr s) = (s \<noteq> [])"
| "truthy (JObj s) = True"

text \<open>
  The parsers the handlers call are not code of this repository: the text parsers of the
  JavaScript runtime and the conversion SQLite applies to a text parameter compared with an
  INTEGER column. They are parameters of the model.
  \<^item> \<open>str_to_float\<close>: the longest-prefix decimal parse inside \<open>parseFloat\<close>;
  \<^item> \<open>parseInt\<close>: \<open>parseInt(x)\<close>, \<open>None\<close> for \<open>NaN\<close>;
  \<^item> \<open>text_to_id\<close>: the integer a route parameter \<open>:id\<close> stands for in
    \<open>WHERE id = ?\<close>, \<open>None\<close> when it matches no integer.
\<close>

record platform =
  str_to_float :: "string \<Rightarrow> jsnum"
  parseInt :: "jsval \<Rightarrow> int option"
  text_to_id :: "string \<Rightarrow> int option"

text \<open>
  \<open>parseFloat(x)\<close> parses \<open>ToString(x)\<close>. A number prints to a text that parses back to
  itself; \<open>undefined\<close>, \<open>null\<close>, \<open>true\<close> and \<open>false\<close> print to texts that start no
  number.
\<close>

fun parseFloat :: "platform \<Rightarrow> jsval \<Rightarrow> jsnum" where
  "parseFloat P (JNum n) = n"
| "parseFloat P (JStr s) = str_to_float P s"
| "parseFloat P (JObj s) = str_to_float P s"
| "parseFloat P JUndefined = NaN"
| "parseFloat P JNull = NaN"
| "parseFloat P (JBool b) = NaN"

fun isNaN :: "jsnum \<Rightarrow> bool" where
  "isNaN NaN = True"
| "isNaN n = False"

text \<open>The comparisons \<open>a <= b\<close> and \<open>a > b\<close> of two numbers; both are false on \<open>NaN\<close>.\<close>

fun js_le :: "jsnum \<Rightarrow> jsnum \<Rightarrow> bool" where
  "js_le NaN b = False"
| "js_le a NaN = False"
| "js_le NegInf b = True"
| "js_le a PosInf = True"
| "js_le PosInf b = False"
| "js_le a NegInf = False"
| "js_le (Fin x) (Fin y) = (x \<le> y)"

fun js_gt :: "jsnum \<Rightarrow> jsnum \<Rightarrow> bool" where
  "js_gt NaN b = False"
| "js_gt a NaN = False"
| "js_gt a PosInf = False"
| "js_gt NegInf b = False"
| "js_gt PosInf b = True"
| "js_gt a NegInf = True"
| "js_gt (Fin x) (Fin y) = (x > y)"

text \<open>
  \<open>x.toFixed(2)\<close>, as the number its text denotes: the multiple of \<open>1/100\<close> nearest to
  \<open>x\<close>, the larger magnitude on a tie.
\<close>

definition toFixed2 :: "rat \<Rightarrow> rat" where
  "toFixed2 x =
     (if x < 0 then - (of_int \<lfloor>(- x) * 100 + 1 / 2\<rfloor> / 100)
      else of_int \<lfloor>x * 100 + 1 / 2\<rfloor> / 100)"

section \<open>The ledger store\<close>

text \<open>
  One record per table of \<open>initializeDatabase\<close>; a table is the list of its rows. The
  REAL columns hold finite amounts. \<open>abonos_seq\<close> is the AUTOINCREMENT counter of
  \<open>abonos\<close>: the largest id the table ever gave out. Every statement runs to its end:
  the \<open>err\<close> branches of the handlers, taken when the storage itself fails, are outside
  this model, and so is the interleaving of two requests.
\<close>

record cliente =
  c_id :: int
  c_nombre :: string
  c_identificacion :: "string option"
  c_telefono :: "string option"
  c_email :: "string option"

record venta =
  v_id :: int
  v_clienteId :: int
  v_producto :: string
  v_monto :: rat
  v_fecha :: string
  v_estado :: string

record apartado =
  ap_id :: int
  ap_clienteId :: int
  ap_producto :: string
  ap_montoTotal :: rat
  ap_fechaCreacion :: string
  ap_estadoApartado :: string
  ap_fechaEntrega :: "string option"

record abono =
  ab_id :: int
  ab_ventaId :: "int option"
  ab_apartadoId :: "int option"
  ab_monto :: rat
  ab_fecha :: jsval
  ab_comentarios :: jsval

record db =
  clientes :: "cliente list"
  ventas :: "venta list"
  apartados :: "apartado list"
  abonos :: "abono list"
  abonos_seq :: int

text \<open>\<open>IFNULL(SUM(a.monto), 0)\<close> over the payments joined to one sale, to one layaway.\<close>

definition totalAbonado_venta :: "db \<Rightarrow> int \<Rightarrow> rat" where
  "totalAbonado_venta d i =
     sum_list (map ab_monto (filter (\<lambda>a. ab_ventaId a = Some i) (abonos d)))"

definition totalAbonado_apartado :: "db \<Rightarrow> int \<Rightarrow> rat" where
  "totalAbonado_apartado d i =
     sum_list (map ab_monto (filter (\<lambda>a. ab_apartadoId a = Some i) (abonos d)))"

section \<open>Replies\<close>

text \<open>
  One constructor per reply body the handlers send; \<open>Reply\<close> pairs it with the HTTP
  status. In the words of the specification: \<open>MsgLinkEitherOr\<close>, \<open>MsgMissingMontoFecha\<close>
  and \<open>MsgAmountNotPositive\<close> are the ValidationError replies, \<open>MsgRefNotFound\<close> and
  \<open>MsgApartadoNotFound\<close> are NotFound, \<open>MsgExceedsBalance\<close> is OverpaymentError (it carries
  the amount and the balance printed with two decimals), \<open>MsgNotPagado\<close> is
  InvalidStateTransition with the current state, and \<open>MsgCannotCancel\<close> is the one reply of
  a refused cancellation.
\<close>

datatype refType = RefVenta | RefApartado

record venta_row =
  vr_id :: int
  vr_clienteId :: int
  vr_producto :: string
  vr_monto :: rat
  vr_fecha :: string
  vr_estado :: string
  vr_nombreCliente :: string
  vr_totalAbonado :: rat
  vr_saldoPendiente :: rat

record apartado_row =
  ar_id :: int
  ar_clienteId :: int
  ar_producto :: string
  ar_montoTotal :: rat
  ar_fechaCreacion :: string
  ar_estadoApartado :: string
  ar_fechaEntrega :: "string option"
  ar_nombreCliente :: string
  ar_totalAbonado :: rat
  ar_saldoPendiente :: rat

datatype payload =
    MsgLinkEitherOr
  | MsgMissingMontoFecha
  | MsgAmountNotPositive
  | MsgRefNotFound refType "int option"
  | MsgExceedsBalance jsnum rat refType int
  | MsgErrorAddingPayment
  | AbonoCreated int "int option" "int option" rat jsval jsval
  | VentasList "venta_row list"
  | ApartadosList "apartado_row list"
  | MsgEntregado string string
  | MsgNotPagado string
  | MsgApartadoNotFound
  | MsgCancelado string
  | MsgCannotCancel

datatype reply = Reply nat payload

section \<open>POST /api/abonos\<close>

record abono_body =
  b_ventaId :: jsval
  b_apartadoId :: jsval
  b_monto :: jsval
  b_fecha :: jsval
  b_comentarios :: jsval

text \<open>
  What a request leaves behind: the reply, the store at the moment the reply is sent, and
  the store once the callbacks still pending at that moment have run.
\<close>

record outcome =
  sent :: reply
  db_at_reply :: db
  db_settled :: db

text \<open>
  \<open>getRefSql\<close> through \<open>db.get\<close>: the first row of the parent with that id, as
  \<open>(montoTotal, totalAbonadoActual)\<close>.
\<close>

definition getRef :: "refType \<Rightarrow> int \<Rightarrow> db \<Rightarrow> (rat \<times> rat) option" where
  "getRef refType i d =
     (case refType of
        RefVenta \<Rightarrow>
          (case find (\<lambda>v. v_id v = i) (ventas d) of
             None \<Rightarrow> None
           | Some v \<Rightarrow> Some (v_monto v, totalAbonado_venta d i))
      | RefApartado \<Rightarrow>
          (case find (\<lambda>ap. ap_id ap = i) (apartados d) of
             None \<Rightarrow> None
           | Some ap \<Rightarrow> Some (ap_montoTotal ap, totalAbonado_apartado d i)))"

text \<open>\<open>insertSql\<close>: the new row takes the next id of the AUTOINCREMENT counter.\<close>

definition insertAbono ::
  "refType \<Rightarrow> int \<Rightarrow> rat \<Rightarrow> jsval \<Rightarrow> jsval \<Rightarrow> db \<Rightarrow> db" where
  "insertAbono refType refId m fecha comentarios d =
     d\<lparr>abonos := abonos d @
          [\<lparr>ab_id = abonos_seq d + 1,
            ab_ventaId = (if refType = RefVenta then Some refId else None),
            ab_apartadoId = (if refType = RefVenta then None else Some refId),
            ab_monto = m,
            ab_fecha = fecha,
            ab_comentarios = (if truthy comentarios then comentarios else JNull)\<rparr>],
        abonos_seq := abonos_seq d + 1\<rparr>"

text \<open>
  \<open>checkFullyPaidSql\<close>: \<open>esPagada\<close> of the parent, from the payments as they are now;
  no row when the parent is gone.
\<close>

definition checkFullyPaid :: "refType \<Rightarrow> int \<Rightarrow> db \<Rightarrow> bool option" where
  "checkFullyPaid refType refId d =
     (case getRef refType refId d of
        None \<Rightarrow> None
      | Some (montoTotal, totalAbonado) \<Rightarrow> Some (montoTotal - totalAbonado \<le> 1 / 1000))"

text \<open>\<open>updateStatusSql\<close> of either parent kind.\<close>

definition updateStatus :: "refType \<Rightarrow> int \<Rightarrow> db \<Rightarrow> db" where
  "updateStatus refType refId d =
     (case refType of
        RefVenta \<Rightarrow>
          d\<lparr>ventas :=
              map (\<lambda>v. if v_id v = refId then v\<lparr>v_estado := ''Pagada''\<rparr> else v) (ventas d)\<rparr>
      | RefApartado \<Rightarrow>
          d\<lparr>apartados :=
              map (\<lambda>ap. if ap_id ap = refId \<and> ap_estadoApartado ap = ''Apartado''
                        then ap\<lparr>ap_estadoApartado := ''Pagado''\<rparr> else ap) (apartados d)\<rparr>)"

text \<open>The callback of \<open>db.get(checkFullyPaidSql, ...)\<close>.\<close>

definition reconcileAfterInsert :: "refType \<Rightarrow> int \<Rightarrow> db \<Rightarrow> db" where
  "reconcileAfterInsert refType refId d =
     (case checkFullyPaid refType refId d of
        Some True \<Rightarrow> updateStatus refType refId d
      | _ \<Rightarrow> d)"

definition rejected :: "nat \<Rightarrow> payload \<Rightarrow> db \<Rightarrow> outcome" where
  "rejected code msg d = \<lparr>sent = Reply code msg, db_at_reply = d, db_settled = d\<rparr>"

text \<open>
  The handler. \<open>refId\<close> is \<open>parseInt\<close> of the reference; \<open>NaN\<close> is bound as NULL and
  finds no row. The reply \<open>201\<close> is sent in the callback of the insertion, right after
  \<open>db.get(checkFullyPaidSql, ...)\<close> is issued: the callback of that query, which updates
  the status, runs after the reply. An amount reaches the insertion only when it is finite
  (the balance is); the branch for any other is the reply of a failed insertion.
\<close>

definition post_abonos :: "platform \<Rightarrow> abono_body \<Rightarrow> db \<Rightarrow> outcome" where
  "post_abonos P body d =
     (let ventaId = b_ventaId body; apartadoId = b_apartadoId body;
          monto = b_monto body; fecha = b_fecha body; comentarios = b_comentarios body
      in
      if (\<not> truthy ventaId \<and> \<not> truthy apartadoId) \<or> (truthy ventaId \<and> truthy apartadoId)
      then rejected 400 MsgLinkEitherOr d
      else if monto = JUndefined \<or> \<not> truthy fecha
      then rejected 400 MsgMissingMontoFecha d
      else
        let montoAbono = parseFloat P monto in
        if isNaN montoAbono \<or> js_le montoAbono (Fin 0)
        then rejected 400 MsgAmountNotPositive d
        else
          let refType = (if truthy ventaId then RefVenta else RefApartado);
              refId = (if truthy ventaId then parseInt P ventaId else parseInt P apartadoId)
          in
          (case refId of
             None \<Rightarrow> rejected 404 (MsgRefNotFound refType None) d
           | Some i \<Rightarrow>
          (case getRef refType i d of
             None \<Rightarrow> rejected 404 (MsgRefNotFound refType (Some i)) d
           | Some (montoTotal, totalAbonadoActual) \<Rightarrow>
               let saldoPendienteActual = montoTotal - totalAbonadoActual in
               if js_gt montoAbono (Fin (saldoPendienteActual + 1 / 1000))
               then rejected 400
                      (MsgExceedsBalance montoAbono (toFixed2 saldoPendienteActual) refType i) d
               else
                 (case montoAbono of
                    Fin m \<Rightarrow>
                      let d1 = insertAbono refType i m fecha comentarios d in
                      \<lparr>sent = Reply 201
                          (AbonoCreated (abonos_seq d1)
                             (if refType = RefVenta then Some i else None)
                             (if refType = RefApartado then Some i else None)
                             m fecha comentarios),
                       db_at_reply = d1,
                       db_settled = reconcileAfterInsert refType i d1\<rparr>
                  | _ \<Rightarrow> rejected 500 MsgErrorAddingPayment d))))"


section \<open>GET /api/ventas\<close>

text \<open>
  The query: one row per sale whose client exists (the inner join), with the sums over its
  payments, ordered by \<open>fecha DESC, id DESC\<close>.
\<close>

definition select_ventas :: "db \<Rightarrow> venta_row list" where
  "select_ventas d =
     rev (sort_key (\<lambda>r. (vr_fecha r, vr_id r))
       (List.map_filter
          (\<lambda>v. map_option
             (\<lambda>c. \<lparr>vr_id = v_id v, vr_clienteId = v_clienteId v, vr_producto = v_producto v,
                    vr_monto = v_monto v, vr_fecha = v_fecha v, vr_estado = v_estado v,
                    vr_nombreCliente = c_nombre c,
                    vr_totalAbonado = totalAbonado_venta d (v_id v),
                    vr_saldoPendiente = v_monto v - totalAbonado_venta d (v_id v)\<rparr>)
             (find (\<lambda>c. c_id c = v_clienteId v) (clientes d)))
          (ventas d)))"

text \<open>\<open>UPDATE ventas SET estado = ? WHERE id = ? AND estado != ?\<close>\<close>

definition updateStatusSQL :: "string \<Rightarrow> int \<Rightarrow> string \<Rightarrow> db \<Rightarrow> db" where
  "updateStatusSQL e i ne d =
     d\<lparr>ventas :=
         map (\<lambda>v. if v_id v = i \<and> v_estado v \<noteq> ne then v\<lparr>v_estado := e\<rparr> else v) (ventas d)\<rparr>"

definition ventasActualizadas :: "db \<Rightarrow> venta_row list" where
  "ventasActualizadas d =
     map (\<lambda>venta. venta\<lparr>vr_estado :=
            (if vr_saldoPendiente venta \<le> 1 / 1000 then ''Pagada'' else ''Pendiente'')\<rparr>)
       (select_ventas d)"

text \<open>The handler: the reply and the store once the updates it issued have run.\<close>

definition get_ventas :: "db \<Rightarrow> reply \<times> db" where
  "get_ventas d =
     (Reply 200 (VentasList (ventasActualizadas d)),
      fold (\<lambda>v d'. if vr_estado v = ''Pagada''
                    then updateStatusSQL ''Pagada'' (vr_id v) ''Pagada'' d'
                    else updateStatusSQL ''Pendiente'' (vr_id v) ''Pendiente'' d')
        (ventasActualizadas d) d)"

section \<open>GET /api/apartados\<close>

definition select_apartados :: "db \<Rightarrow> apartado_row list" where
  "select_apartados d =
     rev (sort_key (\<lambda>r. (ar_fechaCreacion r, ar_id r))
       (List.map_filter
          (\<lambda>ap. map_option
             (\<lambda>c. \<lparr>ar_id = ap_id ap, ar_clienteId = ap_clienteId ap,
                    ar_producto = ap_producto ap, ar_montoTotal = ap_montoTotal ap,
                    ar_fechaCreacion = ap_fechaCreacion ap,
                    ar_estadoApartado = ap_estadoApartado ap,
                    ar_fechaEntrega = ap_fechaEntrega ap,
                    ar_nombreCliente = c_nombre c,
                    ar_totalAbonado = totalAbonado_apartado d (ap_id ap),
                    ar_saldoPendiente = ap_montoTotal ap - totalAbonado_apartado d (ap_id ap)\<rparr>)
             (find (\<lambda>c. c_id c = ap_clienteId ap) (clientes d)))
          (apartados d)))"

definition apartadosActualizados :: "db \<Rightarrow> apartado_row list" where
  "apartadosActualizados d =
     map (\<lambda>apartado.
            let nuevoEstado =
                  (if ar_estadoApartado apartado = ''Apartado'' \<and>
                      ar_saldoPendiente apartado \<le> 1 / 1000
                   then ''Pagado'' else ar_estadoApartado apartado)
            in apartado\<lparr>ar_estadoApartado := nuevoEstado\<rparr>)
       (select_apartados d)"

text \<open>
  \<open>UPDATE apartados SET estadoApartado = 'Pagado' WHERE id = ? AND estadoApartado = 'Apartado'\<close>
\<close>

definition updateApartadoPagado :: "int \<Rightarrow> db \<Rightarrow> db" where
  "updateApartadoPagado i d =
     d\<lparr>apartados :=
         map (\<lambda>ap. if ap_id ap = i \<and> ap_estadoApartado ap = ''Apartado''
                   then ap\<lparr>ap_estadoApartado := ''Pagado''\<rparr> else ap) (apartados d)\<rparr>"

text \<open>
  The handler. \<open>rows.find(...)?.estadoApartado\<close> is \<open>undefined\<close>, which differs from
  every text, when no row has the id.
\<close>

definition get_apartados :: "db \<Rightarrow> reply \<times> db" where
  "get_apartados d =
     (Reply 200 (ApartadosList (apartadosActualizados d)),
      fold (\<lambda>ap d'.
              if ar_estadoApartado ap = ''Pagado'' \<and>
                 (case find (\<lambda>r. ar_id r = ar_id ap) (select_apartados d) of
                    None \<Rightarrow> True
                  | Some r \<Rightarrow> ar_estadoApartado ap \<noteq> ar_estadoApartado r)
              then updateApartadoPagado (ar_id ap) d'
              else d')
        (apartadosActualizados d) d)"

section \<open>PUT /api/apartados/:id/entregar and /cancelar\<close>

text \<open>
  \<open>today\<close> is \<open>new Date().toISOString().split("T")[0]\<close>, the current date. The update
  runs first; \<open>this.changes\<close> is the number of rows it changed.
\<close>

definition put_entregar :: "platform \<Rightarrow> string \<Rightarrow> string \<Rightarrow> db \<Rightarrow> reply \<times> db" where
  "put_entregar P today apartadoId d =
     (let fechaEntrega = today;
          hit = (\<lambda>ap. Some (ap_id ap) = text_to_id P apartadoId \<and>
                       ap_estadoApartado ap = ''Pagado'');
          changes = length (filter hit (apartados d));
          d1 = d\<lparr>apartados :=
                  map (\<lambda>ap. if hit ap
                            then ap\<lparr>ap_estadoApartado := ''Entregado'',
                                    ap_fechaEntrega := Some fechaEntrega\<rparr>
                            else ap) (apartados d)\<rparr>
      in
      if changes = 0 then
        (case find (\<lambda>ap. Some (ap_id ap) = text_to_id P apartadoId) (apartados d1) of
           Some row \<Rightarrow>
             if ap_estadoApartado row \<noteq> ''Pagado''
             then (Reply 400 (MsgNotPagado (ap_estadoApartado row)), d1)
             else (Reply 404 MsgApartadoNotFound, d1)
         | None \<Rightarrow> (Reply 404 MsgApartadoNotFound, d1))
      else (Reply 200 (MsgEntregado apartadoId fechaEntrega), d1))"

definition put_cancelar :: "platform \<Rightarrow> string \<Rightarrow> db \<Rightarrow> reply \<times> db" where
  "put_cancelar P apartadoId d =
     (let hit = (\<lambda>ap. Some (ap_id ap) = text_to_id P apartadoId \<and>
                       (ap_estadoApartado ap = ''Apartado'' \<or> ap_estadoApartado ap = ''Pagado''));
          changes = length (filter hit (apartados d));
          d1 = d\<lparr>apartados :=
                  map (\<lambda>ap. if hit ap then ap\<lparr>ap_estadoApartado := ''Cancelado''\<rparr> else ap)
                    (apartados d)\<rparr>
      in
      if changes = 0 then (Reply 400 MsgCannotCancel, d1)
      else (Reply 200 (MsgCancelado apartadoId), d1))"

section \<open>Notions the properties are stated with\<close>

text \<open>
  The three checks of \<open>POST /api/abonos\<close> that precede the lookup of the parent, negated:
  exactly one reference is set, \<open>monto\<close> is present, \<open>fecha\<close> is set, and the parsed
  amount is a number above zero.
\<close>

definition validated :: "platform \<Rightarrow> abono_body \<Rightarrow> bool" where
  "validated P body =
     (truthy (b_ventaId body) \<noteq> truthy (b_apartadoId body) \<and>
      b_monto body \<noteq> JUndefined \<and> truthy (b_fecha body) \<and>
      \<not> isNaN (parseFloat P (b_monto body)) \<and>
      \<not> js_le (parseFloat P (b_monto body)) (Fin 0))"

text \<open>\<open>refType\<close> and \<open>refId\<close> as the handler computes them from the body.\<close>

definition refTypeOf :: "abono_body \<Rightarrow> refType" where
  "refTypeOf body = (if truthy (b_ventaId body) then RefVenta else RefApartado)"

definition refIdOf :: "platform \<Rightarrow> abono_body \<Rightarrow> int option" where
  "refIdOf P body =
     (if truthy (b_ventaId body) then parseInt P (b_ventaId body)
      else parseInt P (b_apartadoId body))"


text \<open>The PRIMARY KEY constraints of the parent tables.\<close>

definition primary_keys :: "db \<Rightarrow> bool" where
  "primary_keys d =
     (distinct (map v_id (ventas d)) \<and> distinct (map ap_id (apartados d)))"


text \<open>The status a sale has by its balance.\<close>

definition estado_derivado :: "db \<Rightarrow> venta \<Rightarrow> string" where
  "estado_derivado d v =
     (if v_monto v - totalAbonado_venta d (v_id v) \<le> 1 / 1000 then ''Pagada''
      else ''Pendiente'')"

definition has_cliente :: "db \<Rightarrow> int \<Rightarrow> bool" where
  "has_cliente d i = (find (\<lambda>c. c_id c = i) (clientes d) \<noteq> None)"

text \<open>
  Two states of the layaway table that differ at most by rows gone from \<open>Apartado\<close> to
  \<open>Pagado\<close>.
\<close>

definition only_apartado_to_pagado :: "apartado list \<Rightarrow> apartado list \<Rightarrow> bool" where
  "only_apartado_to_pagado xs ys =
     list_all2
       (\<lambda>a a'. a' = a \<or>
          (ap_estadoApartado a = ''Apartado'' \<and> a' = a\<lparr>ap_estadoApartado := ''Pagado''\<rparr>))
       xs ys"

text \<open>The status a layaway has after a reconciliation by its balance.\<close>

definition nuevoEstado :: "db \<Rightarrow> apartado \<Rightarrow> string" where
  "nuevoEstado d ap =
     (if ap_estadoApartado ap = ''Apartado'' \<and>
         ap_montoTotal ap - totalAbonado_apartado d (ap_id ap) \<le> 1 / 1000
      then ''Pagado'' else ap_estadoApartado ap)"

text \<open>The record a list-read returns for a sale, for a layaway, joined with its client.\<close>

definition venta_listed :: "db \<Rightarrow> venta \<Rightarrow> cliente \<Rightarrow> venta_row" where
  "venta_listed d v c =
     \<lparr>vr_id = v_id v, vr_clienteId = v_clienteId v, vr_producto = v_producto v,
      vr_monto = v_monto v, vr_fecha = v_fecha v, vr_estado = estado_derivado d v,
      vr_nombreCliente = c_nombre c,
      vr_totalAbonado = totalAbonado_venta d (v_id v),
      vr_saldoPendiente = v_monto v - totalAbonado_venta d (v_id v)\<rparr>"

definition apartado_listed :: "db \<Rightarrow> apartado \<Rightarrow> cliente \<Rightarrow> apartado_row" where
  "apartado_listed d ap c =
     \<lparr>ar_id = ap_id ap, ar_clienteId = ap_clienteId ap, ar_producto = ap_producto ap,
      ar_montoTotal = ap_montoTotal ap, ar_fechaCreacion = ap_fechaCreacion ap,
      ar_estadoApartado = nuevoEstado d ap, ar_fechaEntrega = ap_fechaEntrega ap,
      ar_nombreCliente = c_nombre c,
      ar_totalAbonado = totalAbonado_apartado d (ap_id ap),
      ar_saldoPendiente = ap_montoTotal ap - totalAbonado_apartado d (ap_id ap)\<rparr>"

text \<open>
  The store with the status of every sale, of every layaway, that the query of a list-read
  reaches (its client exists) set by its balance.
\<close>

definition ventas_reconciled :: "db \<Rightarrow> db" where
  "ventas_reconciled d =
     d\<lparr>ventas :=
         map (\<lambda>v. if has_cliente d (v_clienteId v) then v\<lparr>v_estado := estado_derivado d v\<rparr>
                   else v) (ventas d)\<rparr>"

definition apartados_reconciled :: "db \<Rightarrow> db" where
  "apartados_reconciled d =
     d\<lparr>apartados :=
         map (\<lambda>ap. if has_cliente d (ap_clienteId ap)
                    then ap\<lparr>ap_estadoApartado := nuevoEstado d ap\<rparr>
                    else ap) (apartados d)\<rparr>"

section \<open>Sample data\<close>

text \<open>
  A platform that agrees with the runtime on the values the examples below use: whole
  numbers as ids, the text \<open>Infinity\<close>, and the route parameters \<open>1\<close> and \<open>2\<close>.
\<close>

definition sample_platform :: platform where
  "sample_platform =
     \<lparr>str_to_float = (\<lambda>s. if s = ''Infinity'' then PosInf else NaN),
      parseInt = (\<lambda>x. case x of JNum (Fin r) \<Rightarrow> Some \<lfloor>r\<rfloor> | _ \<Rightarrow> None),
      text_to_id = (\<lambda>s. if s = ''1'' then Some 1 else if s = ''2'' then Some 2 else None)\<rparr>"

text \<open>Client Ana with a sale of 100.00 and a layaway of 50.00, nothing paid yet.\<close>

definition sample_venta :: "string \<Rightarrow> venta" where
  "sample_venta e =
     \<lparr>v_id = 1, v_clienteId = 1, v_producto = ''radio'', v_monto = 100,
      v_fecha = ''2024-01-15'', v_estado = e\<rparr>"

definition sample_apartado :: "string \<Rightarrow> apartado" where
  "sample_apartado e =
     \<lparr>ap_id = 1, ap_clienteId = 1, ap_producto = ''mesa'', ap_montoTotal = 50,
      ap_fechaCreacion = ''2024-02-01'', ap_estadoApartado = e, ap_fechaEntrega = None\<rparr>"

definition sample_db :: "string \<Rightarrow> string \<Rightarrow> db" where
  "sample_db ev ea =
     \<lparr>clientes = [\<lparr>c_id = 1, c_nombre = ''Ana'', c_identificacion = None,
                    c_telefono = None, c_email = None\<rparr>],
      ventas = [sample_venta ev],
      apartados = [sample_apartado ea],
      abonos = [], abonos_seq = 0\<rparr>"

text \<open>A payment of 100.00 on the sale, of 50.00 on the layaway.\<close>

definition sample_abono_venta :: abono where
  "sample_abono_venta =
     \<lparr>ab_id = 1, ab_ventaId = Some 1, ab_apartadoId = None, ab_monto = 100,
      ab_fecha = JStr ''2024-03-01'', ab_comentarios = JNull\<rparr>"

definition sample_abono_apartado :: abono where
  "sample_abono_apartado =
     \<lparr>ab_id = 2, ab_ventaId = None, ab_apartadoId = Some 1, ab_monto = 50,
      ab_fecha = JStr ''2024-03-02'', ab_comentarios = JNull\<rparr>"

definition pay_venta :: "jsval \<Rightarrow> abono_body" where
  "pay_venta m =
     \<lparr>b_ventaId = JNum (Fin 1), b_apartadoId = JUndefined, b_monto = m,
      b_fecha = JStr ''2024-03-01'', b_comentarios = JUndefined\<rparr>"

definition pay_apartado :: "jsval \<Rightarrow> abono_body" where
  "pay_apartado m =
     \<lparr>b_ventaId = JUndefined, b_apartadoId = JNum (Fin 1), b_monto = m,
      b_fecha = JStr ''2024-03-01'', b_comentarios = JUndefined\<rparr>"

section \<open>The handler of payments, case by case\<close>

lemma post_abonos_unfold:
  "post_abonos P body d =
     (if \<not> (truthy (b_ventaId body) \<noteq> truthy (b_apartadoId body))
      then rejected 400 MsgLinkEitherOr d
      else if b_monto body = JUndefined \<or> \<not> truthy (b_fecha body)
      then rejected 400 MsgMissingMontoFecha d
      else if isNaN (parseFloat P (b_monto body)) \<or> js_le (parseFloat P (b_monto body)) (Fin 0)
      then rejected 400 MsgAmountNotPositive d
      else
        (case refIdOf P body of
           None \<Rightarrow> rejected 404 (MsgRefNotFound (refTypeOf body) None) d
         | Some i \<Rightarrow>
             (case getRef (refTypeOf body) i d of
                None \<Rightarrow> rejected 404 (MsgRefNotFound (refTypeOf body) (Some i)) d
              | Some (montoTotal, totalAbonadoActual) \<Rightarrow>
                  if js_gt (parseFloat P (b_monto body))
                       (Fin (montoTotal - totalAbonadoActual + 1 / 1000))
                  then rejected 400
                         (MsgExceedsBalance (parseFloat P (b_monto body))
                            (toFixed2 (montoTotal - totalAbonadoActual)) (refTypeOf body) i) d
                  else
                    (case parseFloat P (b_monto body) of
                       Fin m \<Rightarrow>
                         \<lparr>sent = Reply 201
                             (AbonoCreated (abonos_seq d + 1)
                                (if refTypeOf body = RefVenta then Some i else None)
                                (if refTypeOf body = RefApartado then Some i else None)
                                m (b_fecha body) (b_comentarios body)),
                          db_at_reply =
                            insertAbono (refTypeOf body) i m (b_fecha body) (b_comentarios body) d,
                          db_settled =
                            reconcileAfterInsert (refTypeOf body) i
                              (insertAbono (refTypeOf body) i m (b_fecha body)
                                 (b_comentarios body) d)\<rparr>
                     | _ \<Rightarrow> rejected 500 MsgErrorAddingPayment d))))"
  unfolding post_abonos_def Let_def refIdOf_def refTypeOf_def
  by (auto simp: insertAbono_def split: option.splits jsnum.splits prod.splits)


lemma amount_finite:
  "\<not> isNaN a \<Longrightarrow> \<not> js_le a (Fin 0) \<Longrightarrow> \<not> js_gt a (Fin x) \<Longrightarrow> \<exists>m. a = Fin m \<and> 0 < m \<and> m \<le> x"
  by (cases a) auto


subsection \<open>Overpayment\<close>

lemma sent_rejected [simp]: "sent (rejected c m d) = Reply c m"
  and db_at_reply_rejected [simp]: "db_at_reply (rejected c m d) = d"
  and db_settled_rejected [simp]: "db_settled (rejected c m d) = d"
  by (simp_all add: rejected_def)

lemma post_abonos_not_validated:
  "\<not> validated P body \<Longrightarrow>
     post_abonos P body d =
       rejected 400
         (if truthy (b_ventaId body) = truthy (b_apartadoId body) then MsgLinkEitherOr
          else if b_monto body = JUndefined \<or> \<not> truthy (b_fecha body)
          then MsgMissingMontoFecha else MsgAmountNotPositive) d"
  by (auto simp: post_abonos_unfold validated_def)

lemma post_abonos_validated:
  "validated P body \<Longrightarrow>
     post_abonos P body d =
        (case refIdOf P body of
           None \<Rightarrow> rejected 404 (MsgRefNotFound (refTypeOf body) None) d
         | Some i \<Rightarrow>
             (case getRef (refTypeOf body) i d of
                None \<Rightarrow> rejected 404 (MsgRefNotFound (refTypeOf body) (Some i)) d
              | Some (montoTotal, totalAbonadoActual) \<Rightarrow>
                  if js_gt (parseFloat P (b_monto body))
                       (Fin (montoTotal - totalAbonadoActual + 1 / 1000))
                  then rejected 400
                         (MsgExceedsBalance (parseFloat P (b_monto body))
                            (toFixed2 (montoTotal - totalAbonadoActual)) (refTypeOf body) i) d
                  else
                    (case parseFloat P (b_monto body) of
                       Fin m \<Rightarrow>
                         \<lparr>sent = Reply 201
                             (AbonoCreated (abonos_seq d + 1)
                                (if refTypeOf body = RefVenta then Some i else None)
                                (if refTypeOf body = RefApartado then Some i else None)
                                m (b_fecha body) (b_comentarios body)),
                          db_at_reply =
                            insertAbono (refTypeOf body) i m (b_fecha body) (b_comentarios body) d,
                          db_settled =
                            reconcileAfterInsert (refTypeOf body) i
                              (insertAbono (refTypeOf body) i m (b_fecha body)
                                 (b_comentarios body) d)\<rparr>
                     | _ \<Rightarrow> rejected 500 MsgErrorAddingPayment d)))"
  by (simp add: post_abonos_unfold validated_def)

lemma post_abonos_accept:
  assumes "validated P body" "refIdOf P body = Some i"
    "getRef (refTypeOf body) i d = Some (tot, paid)"
    "parseFloat P (b_monto body) = Fin m" "m \<le> tot - paid + 1 / 1000"
  shows "post_abonos P body d =
           \<lparr>sent = Reply 201
               (AbonoCreated (abonos_seq d + 1)
                  (if refTypeOf body = RefVenta then Some i else None)
                  (if refTypeOf body = RefApartado then Some i else None)
                  m (b_fecha body) (b_comentarios body)),
            db_at_reply = insertAbono (refTypeOf body) i m (b_fecha body) (b_comentarios body) d,
            db_settled =
              reconcileAfterInsert (refTypeOf body) i
                (insertAbono (refTypeOf body) i m (b_fecha body) (b_comentarios body) d)\<rparr>"
  using assms by (simp add: post_abonos_validated)




lemmas sample_defs = sample_platform_def sample_db_def sample_venta_def sample_apartado_def
  pay_venta_def pay_apartado_def sample_abono_venta_def sample_abono_apartado_def



section \<open>Validation\<close>




section \<open>The insertion and the update of the status\<close>

lemma insertAbono_tables [simp]:
  "clientes (insertAbono t i m f c d) = clientes d"
  "ventas (insertAbono t i m f c d) = ventas d"
  "apartados (insertAbono t i m f c d) = apartados d"
  "abonos_seq (insertAbono t i m f c d) = abonos_seq d + 1"
  by (simp_all add: insertAbono_def)

lemma abonos_insertAbono:
  "abonos (insertAbono t i m f c d) =
     abonos d @
       [\<lparr>ab_id = abonos_seq d + 1,
         ab_ventaId = (if t = RefVenta then Some i else None),
         ab_apartadoId = (if t = RefVenta then None else Some i),
         ab_monto = m, ab_fecha = f,
         ab_comentarios = (if truthy c then c else JNull)\<rparr>]"
  by (simp add: insertAbono_def)












section \<open>Admission does not read the state of a layaway\<close>

lemma find_map_comp: "find p (map g xs) = map_option g (find (\<lambda>x. p (g x)) xs)"
  by (induction xs) simp_all

lemma abonos_updateStatus [simp]: "abonos (updateStatus t i d) = abonos d"
  by (cases t) (simp_all add: updateStatus_def)

lemma abonos_reconcileAfterInsert [simp]: "abonos (reconcileAfterInsert t i d) = abonos d"
  by (simp add: reconcileAfterInsert_def split: option.splits bool.splits)

lemma getRef_estado:
  "getRef t i (d\<lparr>apartados := map (\<lambda>ap. ap\<lparr>ap_estadoApartado := f ap\<rparr>) (apartados d)\<rparr>) =
     getRef t i d"
  by (cases t)
    (simp_all add: getRef_def find_map_comp totalAbonado_venta_def totalAbonado_apartado_def
      split: option.splits)

lemma post_abonos_estado:
  "sent (post_abonos P body
           (d\<lparr>apartados := map (\<lambda>ap. ap\<lparr>ap_estadoApartado := f ap\<rparr>) (apartados d)\<rparr>)) =
     sent (post_abonos P body d) \<and>
   abonos (db_settled (post_abonos P body
           (d\<lparr>apartados := map (\<lambda>ap. ap\<lparr>ap_estadoApartado := f ap\<rparr>) (apartados d)\<rparr>))) =
     abonos (db_settled (post_abonos P body d))"
proof (cases "validated P body")
  case False
  then show ?thesis by (simp add: post_abonos_not_validated)
next
  case True
  then show ?thesis
    by (simp add: post_abonos_validated getRef_estado abonos_insertAbono
        split: option.splits prod.splits jsnum.splits)
qed

text \<open>
  Claim C10. A payment on a layaway that passes validation, finds the layaway and is within
  its balance plus 0.001 is admitted and inserted, whatever the state of the layaway:
  \<open>Entregado\<close> and \<open>Cancelado\<close> included. The reply and the payments stored are the same
  when the states of the layaways are replaced by any others.
\<close>

theorem admission_ignores_layaway_state:
  "(validated P body \<and> \<not> truthy (b_ventaId body) \<and>
    parseInt P (b_apartadoId body) = Some i \<and>
    find (\<lambda>ap. ap_id ap = i) (apartados d) = Some ap \<and>
    parseFloat P (b_monto body) = Fin m \<and>
    m \<le> ap_montoTotal ap - totalAbonado_apartado d i + 1 / 1000 \<longrightarrow>
      sent (post_abonos P body d) =
        Reply 201 (AbonoCreated (abonos_seq d + 1) None (Some i) m (b_fecha body)
                     (b_comentarios body)) \<and>
      abonos (db_at_reply (post_abonos P body d)) =
        abonos d @
          [\<lparr>ab_id = abonos_seq d + 1, ab_ventaId = None, ab_apartadoId = Some i,
            ab_monto = m, ab_fecha = b_fecha body,
            ab_comentarios =
              (if truthy (b_comentarios body) then b_comentarios body else JNull)\<rparr>])
   \<and> sent (post_abonos P body
           (d\<lparr>apartados := map (\<lambda>ap. ap\<lparr>ap_estadoApartado := f ap\<rparr>) (apartados d)\<rparr>)) =
       sent (post_abonos P body d)
   \<and> abonos (db_settled (post_abonos P body
           (d\<lparr>apartados := map (\<lambda>ap. ap\<lparr>ap_estadoApartado := f ap\<rparr>) (apartados d)\<rparr>))) =
       abonos (db_settled (post_abonos P body d))"
proof (intro conjI impI)
  assume h: "validated P body \<and> \<not> truthy (b_ventaId body) \<and>
    parseInt P (b_apartadoId body) = Some i \<and>
    find (\<lambda>ap. ap_id ap = i) (apartados d) = Some ap \<and>
    parseFloat P (b_monto body) = Fin m \<and>
    m \<le> ap_montoTotal ap - totalAbonado_apartado d i + 1 / 1000"
  then have t: "refTypeOf body = RefApartado" and r: "refIdOf P body = Some i"
    by (simp_all add: refTypeOf_def refIdOf_def)
  from h have g: "getRef (refTypeOf body) i d =
      Some (ap_montoTotal ap, totalAbonado_apartado d i)"
    by (simp add: t getRef_def)
  from h have v: "validated P body" and m: "parseFloat P (b_monto body) = Fin m"
    and le: "m \<le> ap_montoTotal ap - totalAbonado_apartado d i + 1 / 1000"
    by simp_all
  note eq = post_abonos_accept [OF v r g m le]
  show "sent (post_abonos P body d) =
        Reply 201 (AbonoCreated (abonos_seq d + 1) None (Some i) m (b_fecha body)
                     (b_comentarios body))"
    by (simp add: eq t)
  show "abonos (db_at_reply (post_abonos P body d)) =
        abonos d @
          [\<lparr>ab_id = abonos_seq d + 1, ab_ventaId = None, ab_apartadoId = Some i,
            ab_monto = m, ab_fecha = b_fecha body,
            ab_comentarios =
              (if truthy (b_comentarios body) then b_comentarios body else JNull)\<rparr>]"
    by (simp add: eq t abonos_insertAbono)
next
  show "sent (post_abonos P body
           (d\<lparr>apartados := map (\<lambda>ap. ap\<lparr>ap_estadoApartado := f ap\<rparr>) (apartados d)\<rparr>)) =
       sent (post_abonos P body d)"
    using post_abonos_estado [where P = P and body = body and d = d and f = f] by blast
  show "abonos (db_settled (post_abonos P body
           (d\<lparr>apartados := map (\<lambda>ap. ap\<lparr>ap_estadoApartado := f ap\<rparr>) (apartados d)\<rparr>))) =
       abonos (db_settled (post_abonos P body d))"
    using post_abonos_estado [where P = P and body = body and d = d and f = f] by blast
qed

theorem admission_ignores_layaway_state_witness:
  "validated sample_platform (pay_apartado (JNum (Fin 20))) \<and>
   find (\<lambda>ap. ap_id ap = 1) (apartados (sample_db ''Pendiente'' ''Entregado'')) =
     Some (sample_apartado ''Entregado'') \<and>
   sent (post_abonos sample_platform (pay_apartado (JNum (Fin 20)))
          (sample_db ''Pendiente'' ''Entregado'')) =
     Reply 201 (AbonoCreated 1 None (Some 1) 20 (JStr ''2024-03-01'') JUndefined)"
proof -
  let ?b = "pay_apartado (JNum (Fin 20))"
  let ?d = "sample_db ''Pendiente'' ''Entregado''"
  have v: "validated sample_platform ?b"
    by (simp add: validated_def sample_defs)
  have f: "find (\<lambda>ap. ap_id ap = 1) (apartados ?d) = Some (sample_apartado ''Entregado'')"
    by (simp add: sample_defs)
  have h: "\<not> truthy (b_ventaId ?b)" "parseInt sample_platform (b_apartadoId ?b) = Some 1"
    "parseFloat sample_platform (b_monto ?b) = Fin 20"
    "(20::rat) \<le> ap_montoTotal (sample_apartado ''Entregado'') -
        totalAbonado_apartado ?d 1 + 1 / 1000"
    "abonos_seq ?d + 1 = 1" "b_fecha ?b = JStr ''2024-03-01''" "b_comentarios ?b = JUndefined"
    by (simp_all add: sample_defs totalAbonado_apartado_def)
  from admission_ignores_layaway_state [where P = sample_platform and body = ?b and i = 1
      and d = ?d and ap = "sample_apartado ''Entregado''" and m = 20
      and f = ap_estadoApartado] v f h
  have "sent (post_abonos sample_platform ?b ?d) =
     Reply 201 (AbonoCreated 1 None (Some 1) 20 (JStr ''2024-03-01'') JUndefined)"
    by simp
  with v f show ?thesis by blast
qed

section \<open>The bound on the payments of a parent\<close>










lemma post_abonos_effect:
  "(db_at_reply (post_abonos P body d) = d \<and> db_settled (post_abonos P body d) = d) \<or>
   (\<exists>i m tot paid. getRef (refTypeOf body) i d = Some (tot, paid) \<and>
      m \<le> tot - paid + 1 / 1000 \<and>
      db_at_reply (post_abonos P body d) =
        insertAbono (refTypeOf body) i m (b_fecha body) (b_comentarios body) d \<and>
      db_settled (post_abonos P body d) =
        reconcileAfterInsert (refTypeOf body) i
          (insertAbono (refTypeOf body) i m (b_fecha body) (b_comentarios body) d))"
proof (cases "validated P body")
  case False
  then show ?thesis by (simp add: post_abonos_not_validated)
next
  case v: True
  show ?thesis
  proof (cases "refIdOf P body")
    case None
    with v show ?thesis by (simp add: post_abonos_validated)
  next
    case (Some i)
    show ?thesis
    proof (cases "getRef (refTypeOf body) i d")
      case None
      with v Some show ?thesis by (simp add: post_abonos_validated)
    next
      case g0: (Some tp)
      obtain tot paid where tp: "tp = (tot, paid)" by (cases tp)
      note g = g0 [unfolded tp]
      show ?thesis
      proof (cases "js_gt (parseFloat P (b_monto body)) (Fin (tot - paid + 1 / 1000))")
        case True
        with v Some g show ?thesis by (simp add: post_abonos_validated)
      next
        case False
        from v have "\<not> isNaN (parseFloat P (b_monto body))"
          "\<not> js_le (parseFloat P (b_monto body)) (Fin 0)"
          by (simp_all add: validated_def)
        from amount_finite [OF this False] obtain m where
          m: "parseFloat P (b_monto body) = Fin m" "m \<le> tot - paid + 1 / 1000"
          by blast
        from post_abonos_accept [OF v Some g m] g m(2) show ?thesis
          by auto
      qed
    qed
  qed
qed






section \<open>Delivery and cancellation of a layaway\<close>

lemma map_no_hit: "filter h xs = [] \<Longrightarrow> map (\<lambda>a. if h a then g a else a) xs = xs"
  by (induction xs) (auto split: if_splits)

lemma unique_row:
  "distinct (map f xs) \<Longrightarrow> x \<in> set xs \<Longrightarrow> y \<in> set xs \<Longrightarrow> f x = f y \<Longrightarrow> x = y"
  by (auto simp: distinct_map dest: inj_onD)

lemma find_by_key:
  assumes "distinct (map f xs)" "x \<in> set xs" "p x"
    and "\<And>y. y \<in> set xs \<Longrightarrow> p y \<Longrightarrow> f y = f x"
  shows "find p xs = Some x"
proof -
  from assms(2,3) obtain y where y: "find p xs = Some y"
    by (cases "find p xs") (auto simp: find_None_iff)
  then have "y \<in> set xs" "p y"
    by (auto simp: find_Some_iff)
  with assms have "y = x"
    by (auto intro: unique_row)
  with y show ?thesis by simp
qed

lemma map_one_hit:
  assumes "distinct (map f xs)" "x \<in> set xs" "h x"
    and "\<And>y. y \<in> set xs \<Longrightarrow> h y \<Longrightarrow> f y = f x"
  shows "map (\<lambda>a. if h a then g a else a) xs = map (\<lambda>a. if a = x then g a else a) xs"
proof (rule map_cong [OF refl])
  fix a assume "a \<in> set xs"
  with assms show "(if h a then g a else a) = (if a = x then g a else a)"
    by (auto intro: unique_row)
qed

text \<open>
  Claim C7. The delivery replies with success exactly when a layaway has the id and is in
  state \<open>Pagado\<close>. Under the primary key, that layaway goes to \<open>Entregado\<close> with the
  current date as its delivery date and nothing else changes; a layaway with the id in any
  other state gets the reply \<open>400\<close> that reports its state, and the store is left as it was.
\<close>

theorem deliver_only_from_pagado:
  "((\<exists>pl. fst (put_entregar P today apartadoId d) = Reply 200 pl) =
      (\<exists>ap \<in> set (apartados d).
          Some (ap_id ap) = text_to_id P apartadoId \<and> ap_estadoApartado ap = ''Pagado''))
   \<and> (distinct (map ap_id (apartados d)) \<and> ap \<in> set (apartados d) \<and>
       Some (ap_id ap) = text_to_id P apartadoId \<longrightarrow>
        (ap_estadoApartado ap = ''Pagado'' \<longrightarrow>
           put_entregar P today apartadoId d =
             (Reply 200 (MsgEntregado apartadoId today),
              d\<lparr>apartados :=
                  map (\<lambda>a. if a = ap
                            then a\<lparr>ap_estadoApartado := ''Entregado'',
                                   ap_fechaEntrega := Some today\<rparr>
                            else a) (apartados d)\<rparr>)) \<and>
        (ap_estadoApartado ap \<noteq> ''Pagado'' \<longrightarrow>
           put_entregar P today apartadoId d =
             (Reply 400 (MsgNotPagado (ap_estadoApartado ap)), d)))"
proof (intro conjI impI)
  let ?hit = "\<lambda>ap. Some (ap_id ap) = text_to_id P apartadoId \<and> ap_estadoApartado ap = ''Pagado''"
  have "(\<exists>pl. fst (put_entregar P today apartadoId d) = Reply 200 pl) =
      (filter ?hit (apartados d) \<noteq> [])"
    by (simp add: put_entregar_def Let_def split: option.splits)
  also have "\<dots> = (\<exists>ap \<in> set (apartados d). ?hit ap)"
    by (simp add: filter_empty_conv)
  finally show "(\<exists>pl. fst (put_entregar P today apartadoId d) = Reply 200 pl) =
      (\<exists>ap \<in> set (apartados d).
          Some (ap_id ap) = text_to_id P apartadoId \<and> ap_estadoApartado ap = ''Pagado'')" .
next
  let ?hit = "\<lambda>ap. Some (ap_id ap) = text_to_id P apartadoId \<and> ap_estadoApartado ap = ''Pagado''"
  assume h: "distinct (map ap_id (apartados d)) \<and> ap \<in> set (apartados d) \<and>
       Some (ap_id ap) = text_to_id P apartadoId"
  assume p: "ap_estadoApartado ap = ''Pagado''"
  from h p have ne: "filter ?hit (apartados d) \<noteq> []"
    by (auto simp: filter_empty_conv)
  have same: "ap_id y = ap_id ap" if "y \<in> set (apartados d)" "?hit y" for y
    using that h by (metis option.inject)
  from h p have m: "map (\<lambda>a. if ?hit a
                            then a\<lparr>ap_estadoApartado := ''Entregado'',
                                   ap_fechaEntrega := Some today\<rparr>
                            else a) (apartados d) =
      map (\<lambda>a. if a = ap
                            then a\<lparr>ap_estadoApartado := ''Entregado'',
                                   ap_fechaEntrega := Some today\<rparr>
                            else a) (apartados d)"
    by (intro map_one_hit [where f = ap_id] same) simp_all
  show "put_entregar P today apartadoId d =
             (Reply 200 (MsgEntregado apartadoId today),
              d\<lparr>apartados :=
                  map (\<lambda>a. if a = ap
                            then a\<lparr>ap_estadoApartado := ''Entregado'',
                                   ap_fechaEntrega := Some today\<rparr>
                            else a) (apartados d)\<rparr>)"
    using ne unfolding m [symmetric] by (simp add: put_entregar_def Let_def)
next
  let ?hit = "\<lambda>ap. Some (ap_id ap) = text_to_id P apartadoId \<and> ap_estadoApartado ap = ''Pagado''"
  assume h: "distinct (map ap_id (apartados d)) \<and> ap \<in> set (apartados d) \<and>
       Some (ap_id ap) = text_to_id P apartadoId"
  assume p: "ap_estadoApartado ap \<noteq> ''Pagado''"
  have same: "ap_id y = ap_id ap"
    if "y \<in> set (apartados d)" "Some (ap_id y) = text_to_id P apartadoId" for y
    using that h by (metis option.inject)
  have e: "filter ?hit (apartados d) = []"
  proof (rule ccontr)
    assume "filter ?hit (apartados d) \<noteq> []"
    then obtain y where y: "y \<in> set (apartados d)" "?hit y"
      by (auto simp: filter_empty_conv)
    with same h have "y = ap" by (auto intro: unique_row [where f = ap_id])
    with y p show False by simp
  qed
  from h have f: "find (\<lambda>a. Some (ap_id a) = text_to_id P apartadoId) (apartados d) = Some ap"
    by (intro find_by_key [where f = ap_id] same) simp_all
  have d1: "d\<lparr>apartados := map (\<lambda>a. if ?hit a
                            then a\<lparr>ap_estadoApartado := ''Entregado'',
                                   ap_fechaEntrega := Some today\<rparr>
                            else a) (apartados d)\<rparr> = d"
    by (simp add: map_no_hit [OF e])
  show "put_entregar P today apartadoId d =
             (Reply 400 (MsgNotPagado (ap_estadoApartado ap)), d)"
    unfolding put_entregar_def Let_def d1 using e f p by simp
qed


theorem deliver_only_from_pagado_witness:
  "distinct (map ap_id (apartados (sample_db ''Pendiente'' ''Pagado''))) \<and>
   sample_apartado ''Pagado'' \<in> set (apartados (sample_db ''Pendiente'' ''Pagado'')) \<and>
   Some (ap_id (sample_apartado ''Pagado'')) = text_to_id sample_platform ''1'' \<and>
   put_entregar sample_platform ''2024-05-05'' ''1'' (sample_db ''Pendiente'' ''Pagado'') =
     (Reply 200 (MsgEntregado ''1'' ''2024-05-05''),
      (sample_db ''Pendiente'' ''Pagado'')
        \<lparr>apartados := [(sample_apartado ''Entregado'')
                         \<lparr>ap_fechaEntrega := Some ''2024-05-05''\<rparr>]\<rparr>)"
proof -
  let ?d = "sample_db ''Pendiente'' ''Pagado''"
  have h: "distinct (map ap_id (apartados ?d))"
    "sample_apartado ''Pagado'' \<in> set (apartados ?d)"
    "Some (ap_id (sample_apartado ''Pagado'')) = text_to_id sample_platform ''1''"
    "ap_estadoApartado (sample_apartado ''Pagado'') = ''Pagado''"
    by (simp_all add: sample_defs)
  from deliver_only_from_pagado [where P = sample_platform and today = "''2024-05-05''"
      and apartadoId = "''1''" and d = ?d and ap = "sample_apartado ''Pagado''"] h
  have "put_entregar sample_platform ''2024-05-05'' ''1'' ?d =
     (Reply 200 (MsgEntregado ''1'' ''2024-05-05''),
      ?d\<lparr>apartados :=
           map (\<lambda>a. if a = sample_apartado ''Pagado''
                     then a\<lparr>ap_estadoApartado := ''Entregado'',
                            ap_fechaEntrega := Some ''2024-05-05''\<rparr>
                     else a) (apartados ?d)\<rparr>)"
    by blast
  moreover have "map (\<lambda>a. if a = sample_apartado ''Pagado''
                     then a\<lparr>ap_estadoApartado := ''Entregado'',
                            ap_fechaEntrega := Some ''2024-05-05''\<rparr>
                     else a) (apartados ?d) =
      [(sample_apartado ''Entregado'')\<lparr>ap_fechaEntrega := Some ''2024-05-05''\<rparr>]"
    by (simp add: sample_defs)
  ultimately show ?thesis using h by simp
qed

text \<open>
  Claim C8. The cancellation replies with success exactly when a layaway has the id and is
  in state \<open>Apartado\<close> or \<open>Pagado\<close>. Under the primary key, that layaway goes to
  \<open>Cancelado\<close> and nothing else changes; a layaway with the id in any other state,
  \<open>Entregado\<close> and \<open>Cancelado\<close> included, gets the reply \<open>400\<close> of a refused
  cancellation, and the store is left as it was.
\<close>

theorem cancel_only_from_apartado_or_pagado:
  "((\<exists>pl. fst (put_cancelar P apartadoId d) = Reply 200 pl) =
      (\<exists>ap \<in> set (apartados d).
          Some (ap_id ap) = text_to_id P apartadoId \<and>
          (ap_estadoApartado ap = ''Apartado'' \<or> ap_estadoApartado ap = ''Pagado'')))
   \<and> (distinct (map ap_id (apartados d)) \<and> ap \<in> set (apartados d) \<and>
       Some (ap_id ap) = text_to_id P apartadoId \<longrightarrow>
        (ap_estadoApartado ap = ''Apartado'' \<or> ap_estadoApartado ap = ''Pagado'' \<longrightarrow>
           put_cancelar P apartadoId d =
             (Reply 200 (MsgCancelado apartadoId),
              d\<lparr>apartados :=
                  map (\<lambda>a. if a = ap then a\<lparr>ap_estadoApartado := ''Cancelado''\<rparr> else a)
                    (apartados d)\<rparr>)) \<and>
        (ap_estadoApartado ap \<noteq> ''Apartado'' \<and> ap_estadoApartado ap \<noteq> ''Pagado'' \<longrightarrow>
           put_cancelar P apartadoId d = (Reply 400 MsgCannotCancel, d)))"
proof (intro conjI impI)
  let ?hit = "\<lambda>ap. Some (ap_id ap) = text_to_id P apartadoId \<and>
                 (ap_estadoApartado ap = ''Apartado'' \<or> ap_estadoApartado ap = ''Pagado'')"
  have "(\<exists>pl. fst (put_cancelar P apartadoId d) = Reply 200 pl) =
      (filter ?hit (apartados d) \<noteq> [])"
    by (simp add: put_cancelar_def Let_def)
  also have "\<dots> = (\<exists>ap \<in> set (apartados d). ?hit ap)"
    by (simp add: filter_empty_conv)
  finally show "(\<exists>pl. fst (put_cancelar P apartadoId d) = Reply 200 pl) =
      (\<exists>ap \<in> set (apartados d).
          Some (ap_id ap) = text_to_id P apartadoId \<and>
          (ap_estadoApartado ap = ''Apartado'' \<or> ap_estadoApartado ap = ''Pagado''))" .
next
  let ?hit = "\<lambda>ap. Some (ap_id ap) = text_to_id P apartadoId \<and>
                 (ap_estadoApartado ap = ''Apartado'' \<or> ap_estadoApartado ap = ''Pagado'')"
  assume h: "distinct (map ap_id (apartados d)) \<and> ap \<in> set (apartados d) \<and>
       Some (ap_id ap) = text_to_id P apartadoId"
  assume p: "ap_estadoApartado ap = ''Apartado'' \<or> ap_estadoApartado ap = ''Pagado''"
  from h p have ne: "filter ?hit (apartados d) \<noteq> []"
    by (auto simp: filter_empty_conv)
  have same: "ap_id y = ap_id ap" if "y \<in> set (apartados d)" "?hit y" for y
    using that h by (metis option.inject)
  from h p have m: "map (\<lambda>a. if ?hit a then a\<lparr>ap_estadoApartado := ''Cancelado''\<rparr> else a)
        (apartados d) =
      map (\<lambda>a. if a = ap then a\<lparr>ap_estadoApartado := ''Cancelado''\<rparr> else a) (apartados d)"
    by (intro map_one_hit [where f = ap_id] same) simp_all
  show "put_cancelar P apartadoId d =
             (Reply 200 (MsgCancelado apartadoId),
              d\<lparr>apartados :=
                  map (\<lambda>a. if a = ap then a\<lparr>ap_estadoApartado := ''Cancelado''\<rparr> else a)
                    (apartados d)\<rparr>)"
    using ne unfolding m [symmetric] by (simp add: put_cancelar_def Let_def)
next
  let ?hit = "\<lambda>ap. Some (ap_id ap) = text_to_id P apartadoId \<and>
                 (ap_estadoApartado ap = ''Apartado'' \<or> ap_estadoApartado ap = ''Pagado'')"
  assume h: "distinct (map ap_id (apartados d)) \<and> ap \<in> set (apartados d) \<and>
       Some (ap_id ap) = text_to_id P apartadoId"
  assume p: "ap_estadoApartado ap \<noteq> ''Apartado'' \<and> ap_estadoApartado ap \<noteq> ''Pagado''"
  have same: "ap_id y = ap_id ap"
    if "y \<in> set (apartados d)" "Some (ap_id y) = text_to_id P apartadoId" for y
    using that h by (metis option.inject)
  have e: "filter ?hit (apartados d) = []"
  proof (rule ccontr)
    assume "filter ?hit (apartados d) \<noteq> []"
    then obtain y where y: "y \<in> set (apartados d)" "?hit y"
      by (auto simp: filter_empty_conv)
    with same h have "y = ap" by (auto intro: unique_row [where f = ap_id])
    with y p show False by simp
  qed
  have d1: "d\<lparr>apartados := map (\<lambda>a. if ?hit a then a\<lparr>ap_estadoApartado := ''Cancelado''\<rparr>
                                   else a) (apartados d)\<rparr> = d"
    by (simp add: map_no_hit [OF e])
  show "put_cancelar P apartadoId d = (Reply 400 MsgCannotCancel, d)"
    unfolding put_cancelar_def Let_def d1 using e by simp
qed

theorem cancel_only_from_apartado_or_pagado_witness:
  "distinct (map ap_id (apartados (sample_db ''Pendiente'' ''Entregado''))) \<and>
   sample_apartado ''Entregado'' \<in> set (apartados (sample_db ''Pendiente'' ''Entregado'')) \<and>
   Some (ap_id (sample_apartado ''Entregado'')) = text_to_id sample_platform ''1'' \<and>
   put_cancelar sample_platform ''1'' (sample_db ''Pendiente'' ''Entregado'') =
     (Reply 400 MsgCannotCancel, sample_db ''Pendiente'' ''Entregado'')"
proof -
  let ?d = "sample_db ''Pendiente'' ''Entregado''"
  have h: "distinct (map ap_id (apartados ?d))"
    "sample_apartado ''Entregado'' \<in> set (apartados ?d)"
    "Some (ap_id (sample_apartado ''Entregado'')) = text_to_id sample_platform ''1''"
    "ap_estadoApartado (sample_apartado ''Entregado'') \<noteq> ''Apartado''"
    "ap_estadoApartado (sample_apartado ''Entregado'') \<noteq> ''Pagado''"
    by (simp_all add: sample_defs)
  from cancel_only_from_apartado_or_pagado [where P = sample_platform
      and apartadoId = "''1''" and d = ?d and ap = "sample_apartado ''Entregado''"] h
  have "put_cancelar sample_platform ''1'' ?d = (Reply 400 MsgCannotCancel, ?d)"
    by blast
  with h show ?thesis by simp
qed

section \<open>Reconciliation of layaways\<close>

lemma only_apartado_to_pagado_refl: "only_apartado_to_pagado xs xs"
  by (simp add: only_apartado_to_pagado_def list_all2_same)

lemma only_apartado_to_pagado_trans:
  assumes "only_apartado_to_pagado xs ys" "only_apartado_to_pagado ys zs"
  shows "only_apartado_to_pagado xs zs"
  unfolding only_apartado_to_pagado_def
proof (rule list_all2_trans [OF _ assms [unfolded only_apartado_to_pagado_def]])
  fix a b c :: apartado
  assume "b = a \<or> ap_estadoApartado a = ''Apartado'' \<and> b = a\<lparr>ap_estadoApartado := ''Pagado''\<rparr>"
    and "c = b \<or> ap_estadoApartado b = ''Apartado'' \<and> c = b\<lparr>ap_estadoApartado := ''Pagado''\<rparr>"
  then show "c = a \<or> ap_estadoApartado a = ''Apartado'' \<and> c = a\<lparr>ap_estadoApartado := ''Pagado''\<rparr>"
    by auto
qed

lemma only_apartado_to_pagado_update:
  "only_apartado_to_pagado (apartados d) (apartados (updateApartadoPagado i d))"
  by (simp add: only_apartado_to_pagado_def updateApartadoPagado_def list_all2_map2
      list_all2_same)

lemma updateStatus_RefApartado: "updateStatus RefApartado i d = updateApartadoPagado i d"
  by (simp add: updateStatus_def updateApartadoPagado_def)

lemma apartados_updateStatus_RefVenta [simp]:
  "apartados (updateStatus RefVenta i d) = apartados d"
  by (simp add: updateStatus_def)

lemma only_apartado_to_pagado_reconcileAfterInsert:
  "only_apartado_to_pagado (apartados d) (apartados (reconcileAfterInsert t i d))"
  by (cases t)
    (simp_all add: reconcileAfterInsert_def updateStatus_RefApartado
      only_apartado_to_pagado_update only_apartado_to_pagado_refl
      split: option.splits bool.splits)

lemma only_apartado_to_pagado_fold:
  "only_apartado_to_pagado (apartados d)
     (apartados (fold (\<lambda>r d'. if c r then updateApartadoPagado (ar_id r) d' else d') rows d))"
proof (induction rows arbitrary: d)
  case Nil
  show ?case by (simp add: only_apartado_to_pagado_refl)
next
  case (Cons r rows)
  show ?case
  proof (cases "c r")
    case True
    from only_apartado_to_pagado_trans
      [OF only_apartado_to_pagado_update Cons.IH [of "updateApartadoPagado (ar_id r) d"]]
    show ?thesis using True by simp
  next
    case False
    with Cons.IH [of d] show ?thesis by simp
  qed
qed

text \<open>
  Claim C6. A list-read of the layaways and the admission of a payment change the layaway
  table at most by rows gone from \<open>Apartado\<close> to \<open>Pagado\<close>: a row in any other state,
  \<open>Entregado\<close>, \<open>Cancelado\<close> and \<open>Pagado\<close> included, is left as it was, whatever its
  balance.
\<close>

theorem layaway_only_apartado_to_pagado:
  "only_apartado_to_pagado (apartados d) (apartados (snd (get_apartados d))) \<and>
   only_apartado_to_pagado (apartados d) (apartados (db_at_reply (post_abonos P body d))) \<and>
   only_apartado_to_pagado (apartados d) (apartados (db_settled (post_abonos P body d))) \<and>
   (\<forall>k < length (apartados d).
      ap_estadoApartado (apartados d ! k) \<noteq> ''Apartado'' \<longrightarrow>
        apartados (snd (get_apartados d)) ! k = apartados d ! k \<and>
        apartados (db_at_reply (post_abonos P body d)) ! k = apartados d ! k \<and>
        apartados (db_settled (post_abonos P body d)) ! k = apartados d ! k)"
proof -
  have g: "only_apartado_to_pagado (apartados d) (apartados (snd (get_apartados d)))"
    by (simp add: get_apartados_def only_apartado_to_pagado_fold)
  have a: "only_apartado_to_pagado (apartados d) (apartados (db_at_reply (post_abonos P body d)))"
    using post_abonos_effect [of P body d]
    by (auto simp: only_apartado_to_pagado_refl)
  have s: "only_apartado_to_pagado (apartados d) (apartados (db_settled (post_abonos P body d)))"
    using post_abonos_effect [of P body d]
      only_apartado_to_pagado_reconcileAfterInsert
        [of "insertAbono t i m f c d" for t i m f c]
    by (auto simp: only_apartado_to_pagado_refl)
  have k: "ys ! k = apartados d ! k"
    if "only_apartado_to_pagado (apartados d) ys" "k < length (apartados d)"
      "ap_estadoApartado (apartados d ! k) \<noteq> ''Apartado''" for ys k
    using that by (auto simp: only_apartado_to_pagado_def list_all2_conv_all_nth)
  from g a s k show ?thesis by blast
qed


theorem layaway_only_apartado_to_pagado_witness:
  "apartados (sample_db ''Pendiente'' ''Cancelado'') ! 0 = sample_apartado ''Cancelado'' \<and>
   apartados (snd (get_apartados (sample_db ''Pendiente'' ''Cancelado''))) ! 0 =
     sample_apartado ''Cancelado'' \<and>
   apartados (db_settled (post_abonos sample_platform (pay_apartado (JNum (Fin 50)))
                            (sample_db ''Pendiente'' ''Cancelado''))) ! 0 =
     sample_apartado ''Cancelado''"
proof -
  let ?d = "sample_db ''Pendiente'' ''Cancelado''"
  have h: "0 < length (apartados ?d)" "apartados ?d ! 0 = sample_apartado ''Cancelado''"
    "ap_estadoApartado (apartados ?d ! 0) \<noteq> ''Apartado''"
    by (simp_all add: sample_defs)
  from layaway_only_apartado_to_pagado
    [where d = ?d and P = sample_platform and body = "pay_apartado (JNum (Fin 50))"] h(1,3)
  have "apartados (snd (get_apartados ?d)) ! 0 = apartados ?d ! 0 \<and>
        apartados (db_settled (post_abonos sample_platform (pay_apartado (JNum (Fin 50))) ?d)) ! 0
          = apartados ?d ! 0"
    by blast
  with h(2) show ?thesis by simp
qed

section \<open>List-read of the sales\<close>

lemma map_insort_key:
  "(\<And>x. k' (f x) = k x) \<Longrightarrow> map f (insort_key k x xs) = insort_key k' (f x) (map f xs)"
  by (induction xs) simp_all

lemma map_sort_key:
  assumes "\<And>x. k' (f x) = k x"
  shows "map f (sort_key k xs) = sort_key k' (map f xs)"
  by (induction xs) (simp_all add: map_insort_key [of k' f k, OF assms])

lemma map_map_filter: "map f (List.map_filter g xs) = List.map_filter (\<lambda>x. map_option f (g x)) xs"
  by (induction xs) (simp_all add: map_filter_simps split: option.splits)

lemma map_filter_map: "List.map_filter g (map f xs) = List.map_filter (\<lambda>x. g (f x)) xs"
  by (induction xs) (simp_all add: map_filter_simps split: option.splits)

lemma set_map_filter: "set (List.map_filter g xs) = {y. \<exists>x \<in> set xs. g x = Some y}"
  by (induction xs) (auto simp: map_filter_simps split: option.splits)

lemma ventasActualizadas_eq:
  "ventasActualizadas d =
     rev (sort_key (\<lambda>r. (vr_fecha r, vr_id r))
       (List.map_filter
          (\<lambda>v. map_option (venta_listed d v) (find (\<lambda>c. c_id c = v_clienteId v) (clientes d)))
          (ventas d)))"
proof -
  let ?upd = "\<lambda>venta. venta\<lparr>vr_estado :=
            (if vr_saldoPendiente venta \<le> 1 / 1000 then ''Pagada'' else ''Pendiente'')\<rparr>"
  let ?key = "\<lambda>r. (vr_fecha r, vr_id r)"
  have k: "map ?upd (sort_key ?key ys) = sort_key ?key (map ?upd ys)" for ys
    by (rule map_sort_key) simp
  show ?thesis
    unfolding ventasActualizadas_def select_ventas_def rev_map [symmetric] k map_map_filter
    by (simp add: option.map_comp comp_def venta_listed_def [abs_def] estado_derivado_def)
qed

lemma set_ventasActualizadas:
  "set (ventasActualizadas d) =
     {venta_listed d v c |v c.
        v \<in> set (ventas d) \<and> find (\<lambda>c. c_id c = v_clienteId v) (clientes d) = Some c}"
  by (auto simp: ventasActualizadas_eq set_map_filter)


lemma updateStatusSQL_same:
  "updateStatusSQL e i e d =
     d\<lparr>ventas := map (\<lambda>v. if v_id v = i then v\<lparr>v_estado := e\<rparr> else v) (ventas d)\<rparr>"
proof -
  have "(if v_id v = i \<and> v_estado v \<noteq> e then v\<lparr>v_estado := e\<rparr> else v) =
        (if v_id v = i then v\<lparr>v_estado := e\<rparr> else v)" for v :: venta
    by (cases "v_estado v = e") auto
  then show ?thesis by (simp add: updateStatusSQL_def)
qed

lemma fold_updateStatusSQL:
  assumes "\<forall>r \<in> set rows. vr_estado r = tgt (vr_id r)"
    and "\<forall>r \<in> set rows. vr_estado r = ''Pagada'' \<or> vr_estado r = ''Pendiente''"
  shows "fold (\<lambda>v d'. if vr_estado v = ''Pagada''
                    then updateStatusSQL ''Pagada'' (vr_id v) ''Pagada'' d'
                    else updateStatusSQL ''Pendiente'' (vr_id v) ''Pendiente'' d') rows d =
         d\<lparr>ventas := map (\<lambda>v. if v_id v \<in> vr_id ` set rows
                                then v\<lparr>v_estado := tgt (v_id v)\<rparr> else v) (ventas d)\<rparr>"
  using assms
proof (induction rows arbitrary: d)
  case Nil
  show ?case by simp
next
  case (Cons r rows)
  let ?step = "\<lambda>v d'. if vr_estado v = ''Pagada''
                    then updateStatusSQL ''Pagada'' (vr_id v) ''Pagada'' d'
                    else updateStatusSQL ''Pendiente'' (vr_id v) ''Pendiente'' d'"
  from Cons.prems have r: "vr_estado r = tgt (vr_id r)"
    "vr_estado r = ''Pagada'' \<or> vr_estado r = ''Pendiente''"
    by simp_all
  then have s: "?step r d =
      d\<lparr>ventas := map (\<lambda>v. if v_id v = vr_id r then v\<lparr>v_estado := tgt (vr_id r)\<rparr> else v)
                      (ventas d)\<rparr>"
    by (auto simp: updateStatusSQL_same)
  from Cons.prems have "\<forall>r \<in> set rows. vr_estado r = tgt (vr_id r)"
    "\<forall>r \<in> set rows. vr_estado r = ''Pagada'' \<or> vr_estado r = ''Pendiente''"
    by simp_all
  note ih = Cons.IH [OF this, of "?step r d"]
  have "fold ?step (r # rows) d = fold ?step rows (?step r d)" by simp
  also have "\<dots> = (?step r d)\<lparr>ventas := map (\<lambda>v. if v_id v \<in> vr_id ` set rows
                                then v\<lparr>v_estado := tgt (v_id v)\<rparr> else v)
                          (ventas (?step r d))\<rparr>"
    by (rule ih)
  also have "\<dots> = d\<lparr>ventas := map (\<lambda>v. if v_id v \<in> vr_id ` set (r # rows)
                                then v\<lparr>v_estado := tgt (v_id v)\<rparr> else v) (ventas d)\<rparr>"
    unfolding s by (auto simp: comp_def)
  finally show ?case .
qed

lemma find_own_row:
  "distinct (map f xs) \<Longrightarrow> x \<in> set xs \<Longrightarrow> find (\<lambda>y. f y = f x) xs = Some x"
  by (rule find_by_key [where f = f]) simp_all

lemma get_ventas_reconciles:
  assumes dist: "distinct (map v_id (ventas d))"
  shows "snd (get_ventas d) = ventas_reconciled d"
proof -
  define tgt where "tgt i =
     (case find (\<lambda>v. v_id v = i) (ventas d) of Some v \<Rightarrow> estado_derivado d v | None \<Rightarrow> [])"
    for i
  have tgt: "tgt (v_id v) = estado_derivado d v" if "v \<in> set (ventas d)" for v
    using find_own_row [OF dist that] by (simp add: tgt_def)
  have a: "\<forall>r \<in> set (ventasActualizadas d). vr_estado r = tgt (vr_id r)"
    by (auto simp: set_ventasActualizadas venta_listed_def tgt)
  have b: "\<forall>r \<in> set (ventasActualizadas d).
             vr_estado r = ''Pagada'' \<or> vr_estado r = ''Pendiente''"
    by (auto simp: set_ventasActualizadas venta_listed_def estado_derivado_def)
  have c: "(v_id v \<in> vr_id ` set (ventasActualizadas d)) = has_cliente d (v_clienteId v)"
    if v: "v \<in> set (ventas d)" for v
  proof
    assume "v_id v \<in> vr_id ` set (ventasActualizadas d)"
    then obtain v' c where v': "v' \<in> set (ventas d)" "v_id v' = v_id v"
      and c: "find (\<lambda>c. c_id c = v_clienteId v') (clientes d) = Some c"
      by (auto simp: set_ventasActualizadas venta_listed_def)
    from unique_row [OF dist v'(1) v v'(2)] c show "has_cliente d (v_clienteId v)"
      by (simp add: has_cliente_def)
  next
    assume "has_cliente d (v_clienteId v)"
    then obtain c where "find (\<lambda>c. c_id c = v_clienteId v) (clientes d) = Some c"
      by (auto simp: has_cliente_def)
    with v have "venta_listed d v c \<in> set (ventasActualizadas d)"
      by (auto simp: set_ventasActualizadas)
    then have "vr_id (venta_listed d v c) \<in> vr_id ` set (ventasActualizadas d)"
      by (rule imageI)
    then show "v_id v \<in> vr_id ` set (ventasActualizadas d)"
      by (simp add: venta_listed_def)
  qed
  have "map (\<lambda>v. if v_id v \<in> vr_id ` set (ventasActualizadas d)
                  then v\<lparr>v_estado := tgt (v_id v)\<rparr> else v) (ventas d) =
        map (\<lambda>v. if has_cliente d (v_clienteId v) then v\<lparr>v_estado := estado_derivado d v\<rparr>
                  else v) (ventas d)"
    by (rule map_cong [OF refl]) (simp add: c tgt)
  then show ?thesis
    by (simp add: get_ventas_def ventas_reconciled_def fold_updateStatusSQL [OF a b])
qed




section \<open>List-read of the layaways\<close>

lemma apartadosActualizados_eq:
  "apartadosActualizados d =
     rev (sort_key (\<lambda>r. (ar_fechaCreacion r, ar_id r))
       (List.map_filter
          (\<lambda>ap. map_option (apartado_listed d ap)
                  (find (\<lambda>c. c_id c = ap_clienteId ap) (clientes d)))
          (apartados d)))"
proof -
  let ?upd = "\<lambda>apartado.
            let nuevoEstado =
                  (if ar_estadoApartado apartado = ''Apartado'' \<and>
                      ar_saldoPendiente apartado \<le> 1 / 1000
                   then ''Pagado'' else ar_estadoApartado apartado)
            in apartado\<lparr>ar_estadoApartado := nuevoEstado\<rparr>"
  let ?key = "\<lambda>r. (ar_fechaCreacion r, ar_id r)"
  have k: "map ?upd (sort_key ?key ys) = sort_key ?key (map ?upd ys)" for ys
    by (rule map_sort_key) (simp add: Let_def)
  show ?thesis
    unfolding apartadosActualizados_def select_apartados_def rev_map [symmetric] k
      map_map_filter
    by (simp add: option.map_comp comp_def apartado_listed_def [abs_def] nuevoEstado_def
        Let_def cong: if_cong)
qed

lemma set_apartadosActualizados:
  "set (apartadosActualizados d) =
     {apartado_listed d ap c |ap c.
        ap \<in> set (apartados d) \<and> find (\<lambda>c. c_id c = ap_clienteId ap) (clientes d) = Some c}"
  by (auto simp: apartadosActualizados_eq set_map_filter)

lemma set_select_apartados:
  "set (select_apartados d) =
     {(apartado_listed d ap c)\<lparr>ar_estadoApartado := ap_estadoApartado ap\<rparr> |ap c.
        ap \<in> set (apartados d) \<and> find (\<lambda>c. c_id c = ap_clienteId ap) (clientes d) = Some c}"
  by (auto simp: select_apartados_def set_map_filter apartado_listed_def)

lemma fold_updateApartadoPagado:
  "fold (\<lambda>r d'. if c r then updateApartadoPagado (ar_id r) d' else d') rows d =
     d\<lparr>apartados :=
         map (\<lambda>ap. if ap_id ap \<in> ar_id ` {r \<in> set rows. c r} \<and>
                      ap_estadoApartado ap = ''Apartado''
                   then ap\<lparr>ap_estadoApartado := ''Pagado''\<rparr> else ap) (apartados d)\<rparr>"
proof (induction rows arbitrary: d)
  case Nil
  show ?case by simp
next
  case (Cons r rows)
  show ?case
  proof (cases "c r")
    case True
    have "{x \<in> set (r # rows). c x} = insert r {x \<in> set rows. c x}"
      using True by auto
    then show ?thesis
      using True by (auto simp: Cons.IH updateApartadoPagado_def comp_def)
  next
    case False
    have "{x \<in> set (r # rows). c x} = {x \<in> set rows. c x}"
      using False by auto
    then show ?thesis
      using False by (simp add: Cons.IH)
  qed
qed

lemma get_apartados_reconciles:
  assumes dist: "distinct (map ap_id (apartados d))"
  shows "snd (get_apartados d) = apartados_reconciled d"
proof -
  let ?c = "\<lambda>ap. ar_estadoApartado ap = ''Pagado'' \<and>
                 (case find (\<lambda>r. ar_id r = ar_id ap) (select_apartados d) of
                    None \<Rightarrow> True
                  | Some r \<Rightarrow> ar_estadoApartado ap \<noteq> ar_estadoApartado r)"
  have original: "find (\<lambda>r. ar_id r = ap_id ap) (select_apartados d) =
      Some ((apartado_listed d ap c)\<lparr>ar_estadoApartado := ap_estadoApartado ap\<rparr>)"
    if ap: "ap \<in> set (apartados d)"
      and c: "find (\<lambda>c. c_id c = ap_clienteId ap) (clientes d) = Some c" for ap c
  proof -
    let ?r = "(apartado_listed d ap c)\<lparr>ar_estadoApartado := ap_estadoApartado ap\<rparr>"
    have in_rows: "?r \<in> set (select_apartados d)"
      using ap c by (auto simp: set_select_apartados)
    have "ar_id ?r = ap_id ap" by (simp add: apartado_listed_def)
    with in_rows obtain r' where f: "find (\<lambda>r. ar_id r = ap_id ap) (select_apartados d) = Some r'"
      by (cases "find (\<lambda>r. ar_id r = ap_id ap) (select_apartados d)")
        (auto simp: find_None_iff)
    then have "r' \<in> set (select_apartados d)" "ar_id r' = ap_id ap"
      by (auto simp: find_Some_iff)
    then obtain ap' c' where ap': "ap' \<in> set (apartados d)"
      "find (\<lambda>c. c_id c = ap_clienteId ap') (clientes d) = Some c'"
      "r' = (apartado_listed d ap' c')\<lparr>ar_estadoApartado := ap_estadoApartado ap'\<rparr>"
      "ap_id ap' = ap_id ap"
      by (auto simp: set_select_apartados apartado_listed_def)
    from unique_row [OF dist ap'(1) ap ap'(4)] ap'(2,3) c have "r' = ?r" by simp
    with f show ?thesis by simp
  qed
  have hit: "(ap_id ap \<in> ar_id ` {r \<in> set (apartadosActualizados d). ?c r} \<and>
              ap_estadoApartado ap = ''Apartado'') =
             (has_cliente d (ap_clienteId ap) \<and> nuevoEstado d ap \<noteq> ap_estadoApartado ap)"
    if ap: "ap \<in> set (apartados d)" for ap
  proof
    assume l: "ap_id ap \<in> ar_id ` {r \<in> set (apartadosActualizados d). ?c r} \<and>
              ap_estadoApartado ap = ''Apartado''"
    then have "ap_id ap \<in> ar_id ` {r \<in> set (apartadosActualizados d). ?c r}" ..
    then obtain r where r0: "r \<in> {r \<in> set (apartadosActualizados d). ?c r}"
      and ri: "ap_id ap = ar_id r"
      by (rule imageE)
    from r0 have r: "r \<in> set (apartadosActualizados d)" and cr: "?c r"
      by simp_all
    from r obtain ap' c where ap'0: "ap' \<in> set (apartados d)"
      "find (\<lambda>c. c_id c = ap_clienteId ap') (clientes d) = Some c"
      and rl: "r = apartado_listed d ap' c"
      unfolding set_apartadosActualizados by blast
    from ri rl have "ap_id ap' = ap_id ap"
      by (simp add: apartado_listed_def)
    note ap' = ap'0 this cr [unfolded rl]
    from unique_row [OF dist ap'(1) ap ap'(3)] have e: "ap' = ap" .
    from ap'(4) have "nuevoEstado d ap = ''Pagado''"
      by (simp add: e apartado_listed_def)
    with l ap'(2) show "has_cliente d (ap_clienteId ap) \<and> nuevoEstado d ap \<noteq> ap_estadoApartado ap"
      by (simp add: e has_cliente_def)
  next
    assume r: "has_cliente d (ap_clienteId ap) \<and> nuevoEstado d ap \<noteq> ap_estadoApartado ap"
    then obtain c where c: "find (\<lambda>c. c_id c = ap_clienteId ap) (clientes d) = Some c"
      by (auto simp: has_cliente_def)
    from r have n: "ap_estadoApartado ap = ''Apartado''" "nuevoEstado d ap = ''Pagado''"
      by (auto simp: nuevoEstado_def split: if_splits)
    have "apartado_listed d ap c \<in> set (apartadosActualizados d)"
      using ap c by (auto simp: set_apartadosActualizados)
    moreover have "?c (apartado_listed d ap c)"
      using original [OF ap c] n by (simp add: apartado_listed_def)
    ultimately have "ar_id (apartado_listed d ap c) \<in>
        ar_id ` {r \<in> set (apartadosActualizados d). ?c r}"
      by blast
    with n show "ap_id ap \<in> ar_id ` {r \<in> set (apartadosActualizados d). ?c r} \<and>
              ap_estadoApartado ap = ''Apartado''"
      by (simp add: apartado_listed_def)
  qed
  have "map (\<lambda>ap. if ap_id ap \<in> ar_id ` {r \<in> set (apartadosActualizados d). ?c r} \<and>
                      ap_estadoApartado ap = ''Apartado''
                   then ap\<lparr>ap_estadoApartado := ''Pagado''\<rparr> else ap) (apartados d) =
        map (\<lambda>ap. if has_cliente d (ap_clienteId ap)
                    then ap\<lparr>ap_estadoApartado := nuevoEstado d ap\<rparr>
                    else ap) (apartados d)"
  proof (rule map_cong [OF refl])
    fix ap assume ap: "ap \<in> set (apartados d)"
    show "(if ap_id ap \<in> ar_id ` {r \<in> set (apartadosActualizados d). ?c r} \<and>
                      ap_estadoApartado ap = ''Apartado''
                   then ap\<lparr>ap_estadoApartado := ''Pagado''\<rparr> else ap) =
          (if has_cliente d (ap_clienteId ap)
                    then ap\<lparr>ap_estadoApartado := nuevoEstado d ap\<rparr>
                    else ap)"
      unfolding hit [OF ap]
      by (cases "nuevoEstado d ap = ap_estadoApartado ap")
        (auto simp: nuevoEstado_def split: if_splits)
  qed
  then show ?thesis
    by (simp add: get_apartados_def apartados_reconciled_def fold_updateApartadoPagado)
qed


section \<open>Running the reconciliation again\<close>

lemma ventas_reconciled_parts [simp]:
  "clientes (ventas_reconciled d) = clientes d"
  "abonos (ventas_reconciled d) = abonos d"
  "map v_id (ventas (ventas_reconciled d)) = map v_id (ventas d)"
  by (simp_all add: ventas_reconciled_def comp_def if_distrib [of v_id] cong: if_cong)

lemma apartados_reconciled_parts [simp]:
  "clientes (apartados_reconciled d) = clientes d"
  "abonos (apartados_reconciled d) = abonos d"
  "map ap_id (apartados (apartados_reconciled d)) = map ap_id (apartados d)"
  by (simp_all add: apartados_reconciled_def comp_def if_distrib [of ap_id] cong: if_cong)

lemma totalAbonado_reconciled [simp]:
  "totalAbonado_venta (ventas_reconciled d) = totalAbonado_venta d"
  "totalAbonado_apartado (apartados_reconciled d) = totalAbonado_apartado d"
  by (simp_all add: fun_eq_iff totalAbonado_venta_def totalAbonado_apartado_def)

lemma venta_listed_estado: "venta_listed d (v\<lparr>v_estado := e\<rparr>) = venta_listed d v"
  by (simp add: fun_eq_iff venta_listed_def estado_derivado_def)

lemma venta_listed_reconciled: "venta_listed (ventas_reconciled d) v = venta_listed d v"
  by (simp add: fun_eq_iff venta_listed_def estado_derivado_def)

lemma ventasActualizadas_reconciled:
  "ventasActualizadas (ventas_reconciled d) = ventasActualizadas d"
proof -
  let ?g = "\<lambda>v. if has_cliente d (v_clienteId v) then v\<lparr>v_estado := estado_derivado d v\<rparr>
                 else v"
  have g: "map_option (venta_listed d (?g v)) (find (\<lambda>c. c_id c = v_clienteId (?g v)) cs) =
           map_option (venta_listed d v) (find (\<lambda>c. c_id c = v_clienteId v) cs)" for v cs
    by (simp add: venta_listed_estado)
  have "ventas (ventas_reconciled d) = map ?g (ventas d)"
    by (simp add: ventas_reconciled_def)
  then have "List.map_filter
          (\<lambda>v. map_option (venta_listed (ventas_reconciled d) v)
            (find (\<lambda>c. c_id c = v_clienteId v) (clientes (ventas_reconciled d))))
          (ventas (ventas_reconciled d)) =
        List.map_filter
          (\<lambda>v. map_option (venta_listed d v)
            (find (\<lambda>c. c_id c = v_clienteId v) (clientes d)))
          (ventas d)"
    by (simp only: map_filter_map venta_listed_reconciled ventas_reconciled_parts g)
  then show ?thesis
    by (simp only: ventasActualizadas_eq)
qed

lemma ventas_reconciled_idem: "ventas_reconciled (ventas_reconciled d) = ventas_reconciled d"
proof -
  have "has_cliente (ventas_reconciled d) = has_cliente d"
    by (simp add: fun_eq_iff has_cliente_def)
  moreover have "estado_derivado (ventas_reconciled d) (v\<lparr>v_estado := e\<rparr>) = estado_derivado d v"
    "estado_derivado (ventas_reconciled d) v = estado_derivado d v" for v e
    by (simp_all add: estado_derivado_def)
  ultimately have "ventas (ventas_reconciled (ventas_reconciled d)) = ventas (ventas_reconciled d)"
    by (simp add: ventas_reconciled_def [of "ventas_reconciled d"])
      (simp add: ventas_reconciled_def)
  then show ?thesis
    by (simp add: ventas_reconciled_def [of "ventas_reconciled d"])
qed


lemma nuevoEstado_again:
  "nuevoEstado (apartados_reconciled d) (ap\<lparr>ap_estadoApartado := nuevoEstado d ap\<rparr>) =
     nuevoEstado d ap"
  by (simp add: nuevoEstado_def)

lemma nuevoEstado_reconciled: "nuevoEstado (apartados_reconciled d) ap = nuevoEstado d ap"
  by (simp add: nuevoEstado_def)

lemma apartado_listed_again:
  "apartado_listed d (ap\<lparr>ap_estadoApartado := nuevoEstado d ap\<rparr>) = apartado_listed d ap"
  by (simp add: fun_eq_iff apartado_listed_def nuevoEstado_def)

lemma apartado_listed_reconciled:
  "apartado_listed (apartados_reconciled d) ap = apartado_listed d ap"
  by (simp add: fun_eq_iff apartado_listed_def nuevoEstado_reconciled)

lemma apartadosActualizados_reconciled:
  "apartadosActualizados (apartados_reconciled d) = apartadosActualizados d"
proof -
  let ?g = "\<lambda>ap. if has_cliente d (ap_clienteId ap)
                  then ap\<lparr>ap_estadoApartado := nuevoEstado d ap\<rparr> else ap"
  have g: "map_option (apartado_listed (apartados_reconciled d) (?g ap))
             (find (\<lambda>c. c_id c = ap_clienteId (?g ap)) cs) =
           map_option (apartado_listed d ap) (find (\<lambda>c. c_id c = ap_clienteId ap) cs)"
    for ap cs
    by (simp add: apartado_listed_again apartado_listed_reconciled)
  have "apartados (apartados_reconciled d) = map ?g (apartados d)"
    by (simp add: apartados_reconciled_def)
  then have "List.map_filter
          (\<lambda>ap. map_option (apartado_listed (apartados_reconciled d) ap)
            (find (\<lambda>c. c_id c = ap_clienteId ap) (clientes (apartados_reconciled d))))
          (apartados (apartados_reconciled d)) =
        List.map_filter
          (\<lambda>ap. map_option (apartado_listed d ap)
            (find (\<lambda>c. c_id c = ap_clienteId ap) (clientes d)))
          (apartados d)"
    by (simp only: map_filter_map apartados_reconciled_parts g)
  then show ?thesis
    by (simp only: apartadosActualizados_eq)
qed

lemma apartados_reconciled_idem:
  "apartados_reconciled (apartados_reconciled d) = apartados_reconciled d"
proof -
  define g where "g ap =
     (if has_cliente d (ap_clienteId ap) then ap\<lparr>ap_estadoApartado := nuevoEstado d ap\<rparr>
      else ap)" for ap
  have h: "has_cliente (apartados_reconciled d) = has_cliente d"
    by (simp add: fun_eq_iff has_cliente_def)
  have one: "apartados (apartados_reconciled d) = map g (apartados d)"
    by (simp add: apartados_reconciled_def g_def [abs_def])
  have two: "apartados (apartados_reconciled (apartados_reconciled d)) =
        map g (apartados (apartados_reconciled d))"
    by (simp add: apartados_reconciled_def [of "apartados_reconciled d"] h
        nuevoEstado_reconciled g_def [abs_def])
  have "g (g ap) = g ap" for ap
    by (simp add: g_def nuevoEstado_def)
  then have "map g (map g (apartados d)) = map g (apartados d)"
    by (simp add: comp_def)
  with one two have "apartados (apartados_reconciled (apartados_reconciled d)) =
        apartados (apartados_reconciled d)"
    by simp
  then show ?thesis
    by (simp add: apartados_reconciled_def [of "apartados_reconciled d"])
qed

lemma find_map_key:
  assumes "\<And>x. f (g x) = f x"
  shows "find (\<lambda>x. f x = i) (map g xs) = map_option g (find (\<lambda>x. f x = i) xs)"
  by (induction xs) (simp_all add: assms)

lemma getRef_updateStatus: "getRef t i (updateStatus t' j d) = getRef t i d"
proof -
  have v: "find (\<lambda>v. v_id v = i)
             (map (\<lambda>v. if v_id v = j then v\<lparr>v_estado := ''Pagada''\<rparr> else v) xs) =
           map_option (\<lambda>v. if v_id v = j then v\<lparr>v_estado := ''Pagada''\<rparr> else v)
             (find (\<lambda>v. v_id v = i) xs)" for xs
    by (rule find_map_key) simp
  have a: "find (\<lambda>ap. ap_id ap = i)
             (map (\<lambda>ap. if ap_id ap = j \<and> ap_estadoApartado ap = ''Apartado''
                        then ap\<lparr>ap_estadoApartado := ''Pagado''\<rparr> else ap) xs) =
           map_option (\<lambda>ap. if ap_id ap = j \<and> ap_estadoApartado ap = ''Apartado''
                        then ap\<lparr>ap_estadoApartado := ''Pagado''\<rparr> else ap)
             (find (\<lambda>ap. ap_id ap = i) xs)" for xs
    by (rule find_map_key) simp
  show ?thesis
    by (cases t; cases t')
      (simp_all add: getRef_def updateStatus_def v a totalAbonado_venta_def
        totalAbonado_apartado_def split: option.splits)
qed

lemma updateStatus_idem: "updateStatus t i (updateStatus t i d) = updateStatus t i d"
  by (cases t) (simp_all add: updateStatus_def comp_def cong: if_cong)

lemma reconcileAfterInsert_idem:
  "reconcileAfterInsert t i (reconcileAfterInsert t i d) = reconcileAfterInsert t i d"
proof (cases "checkFullyPaid t i d = Some True")
  case True
  then have "checkFullyPaid t i (updateStatus t i d) = Some True"
    by (simp add: checkFullyPaid_def getRef_updateStatus)
  with True show ?thesis
    by (simp add: reconcileAfterInsert_def updateStatus_idem)
next
  case False
  then have "reconcileAfterInsert t i d = d"
    by (auto simp: reconcileAfterInsert_def split: option.splits bool.splits)
  then show ?thesis by simp
qed

text \<open>
  Claim C9. Under the primary keys, a list-read of the sales run on the store the first one
  left sends the same reply and leaves that store as it is: none of its updates changes a
  row. The same holds for the list-read of the layaways, and for the reconciliation that
  follows a payment.
\<close>

theorem reconciliation_idempotent:
  "primary_keys d \<longrightarrow>
     fst (get_ventas (snd (get_ventas d))) = fst (get_ventas d) \<and>
     snd (get_ventas (snd (get_ventas d))) = snd (get_ventas d) \<and>
     fst (get_apartados (snd (get_apartados d))) = fst (get_apartados d) \<and>
     snd (get_apartados (snd (get_apartados d))) = snd (get_apartados d) \<and>
     reconcileAfterInsert t i (reconcileAfterInsert t i d) = reconcileAfterInsert t i d"
proof
  assume pk: "primary_keys d"
  then have dv: "distinct (map v_id (ventas d))" and da: "distinct (map ap_id (apartados d))"
    by (simp_all add: primary_keys_def)
  have v1: "snd (get_ventas d) = ventas_reconciled d"
    by (rule get_ventas_reconciles [OF dv])
  have "distinct (map v_id (ventas (ventas_reconciled d)))"
    using dv by simp
  then have v2: "snd (get_ventas (ventas_reconciled d)) = ventas_reconciled d"
    by (simp add: get_ventas_reconciles ventas_reconciled_idem)
  have v3: "fst (get_ventas (ventas_reconciled d)) = fst (get_ventas d)"
    by (simp add: get_ventas_def ventasActualizadas_reconciled)
  have a1: "snd (get_apartados d) = apartados_reconciled d"
    by (rule get_apartados_reconciles [OF da])
  have "distinct (map ap_id (apartados (apartados_reconciled d)))"
    using da by simp
  then have a2: "snd (get_apartados (apartados_reconciled d)) = apartados_reconciled d"
    by (simp add: get_apartados_reconciles apartados_reconciled_idem)
  have a3: "fst (get_apartados (apartados_reconciled d)) = fst (get_apartados d)"
    by (simp add: get_apartados_def apartadosActualizados_reconciled)
  show "fst (get_ventas (snd (get_ventas d))) = fst (get_ventas d) \<and>
     snd (get_ventas (snd (get_ventas d))) = snd (get_ventas d) \<and>
     fst (get_apartados (snd (get_apartados d))) = fst (get_apartados d) \<and>
     snd (get_apartados (snd (get_apartados d))) = snd (get_apartados d) \<and>
     reconcileAfterInsert t i (reconcileAfterInsert t i d) = reconcileAfterInsert t i d"
    unfolding v1 a1 using v2 v3 a2 a3 reconcileAfterInsert_idem by simp
qed


theorem reconciliation_idempotent_witness:
  "primary_keys ((sample_db ''Pendiente'' ''Apartado'')
                   \<lparr>abonos := [sample_abono_venta, sample_abono_apartado]\<rparr>) \<and>
   snd (get_ventas ((sample_db ''Pendiente'' ''Apartado'')
                      \<lparr>abonos := [sample_abono_venta, sample_abono_apartado]\<rparr>)) =
     (sample_db ''Pagada'' ''Apartado'')
       \<lparr>abonos := [sample_abono_venta, sample_abono_apartado]\<rparr> \<and>
   snd (get_ventas ((sample_db ''Pagada'' ''Apartado'')
                      \<lparr>abonos := [sample_abono_venta, sample_abono_apartado]\<rparr>)) =
     (sample_db ''Pagada'' ''Apartado'')
       \<lparr>abonos := [sample_abono_venta, sample_abono_apartado]\<rparr>"
proof -
  let ?d = "(sample_db ''Pendiente'' ''Apartado'')
              \<lparr>abonos := [sample_abono_venta, sample_abono_apartado]\<rparr>"
  let ?d1 = "(sample_db ''Pagada'' ''Apartado'')
               \<lparr>abonos := [sample_abono_venta, sample_abono_apartado]\<rparr>"
  have pk: "primary_keys ?d"
    by (simp add: primary_keys_def sample_defs)
  then have "distinct (map v_id (ventas ?d))"
    by (simp add: primary_keys_def)
  then have "snd (get_ventas ?d) = ventas_reconciled ?d"
    by (rule get_ventas_reconciles)
  also have "\<dots> = ?d1"
    by (simp add: ventas_reconciled_def has_cliente_def estado_derivado_def
        totalAbonado_venta_def sample_defs)
  finally have one: "snd (get_ventas ?d) = ?d1" .
  from reconciliation_idempotent [of ?d] pk
  have "snd (get_ventas (snd (get_ventas ?d))) = snd (get_ventas ?d)"
    by blast
  then have "snd (get_ventas ?d1) = ?d1"
    by (simp only: one)
  with pk one show ?thesis by blast
qed

end
